theory Spec2Isabelle
  imports Complex_Main
begin

section \<open>Input controllers of expyfun: keyboard and mouse monitors\<close>

text \<open>
  A shallow embedding of \<^verbatim>\<open>expyfun/_input_controllers.py\<close>. The two classes
  \<^verbatim>\<open>Keyboard\<close> and \<^verbatim>\<open>Mouse\<close> share one window and one experiment controller, so their
  fields live in one record, together with the collaborators they call: the master clock,
  the window's event pump, the recorder and \<^verbatim>\<open>wait_secs\<close>. Every method takes the world
  and returns the new one; a raised exception is an \<open>Inl\<close> value that comes with the world
  as it was when the exception was raised.
\<close>

subsection \<open>Python values\<close>

text \<open>
  Wait durations are Python floats that may be infinite or not a number; the comparisons
  are those of IEEE 754 (every comparison with \<open>NaN\<close> is false). Finite times are reals:
  rounding is not modelled.
\<close>

datatype pyfloat = Fin real | PInf | NInf | NaN

fun isinf :: "pyfloat \<Rightarrow> bool" where
  "isinf PInf = True"
| "isinf NInf = True"
| "isinf (Fin _) = False"
| "isinf NaN = False"

fun fl_le :: "pyfloat \<Rightarrow> pyfloat \<Rightarrow> bool" where
  "fl_le NaN _ = False"
| "fl_le _ NaN = False"
| "fl_le NInf _ = True"
| "fl_le _ PInf = True"
| "fl_le (Fin a) (Fin b) = (a \<le> b)"
| "fl_le PInf _ = False"
| "fl_le _ NInf = False"

fun fl_lt :: "pyfloat \<Rightarrow> pyfloat \<Rightarrow> bool" where
  "fl_lt NaN _ = False"
| "fl_lt _ NaN = False"
| "fl_lt PInf _ = False"
| "fl_lt _ NInf = False"
| "fl_lt (Fin a) (Fin b) = (a < b)"
| "fl_lt NInf _ = True"
| "fl_lt _ PInf = True"

fun fl_eq :: "pyfloat \<Rightarrow> pyfloat \<Rightarrow> bool" where
  "fl_eq NaN _ = False"
| "fl_eq _ NaN = False"
| "fl_eq a b = (a = b)"

text \<open>An element of \<^verbatim>\<open>live_keys\<close> is a string or an int; \<^verbatim>\<open>str(x)\<close> makes it a string.\<close>

datatype pykey = KStr string | KInt int

fun str_nat :: "nat \<Rightarrow> string" where
  "str_nat n =
     (if n < 10 then [''0123456789'' ! n]
      else str_nat (n div 10) @ [''0123456789'' ! (n mod 10)])"

declare str_nat.simps [simp del]

fun py_str :: "pykey \<Rightarrow> string" where
  "py_str (KStr s) = s"
| "py_str (KInt i) = (if i < 0 then CHR ''-'' # str_nat (nat (- i)) else str_nat (nat i))"

text \<open>The exceptions the module raises, each with its message.\<close>

datatype error = ValueError string | TypeError string | RuntimeError string | IndexError

subsection \<open>The world\<close>

type_synonym key_event = "string \<times> real"

type_synonym click_event = "string \<times> int \<times> int \<times> real"

text \<open>
  What one handler call appends to a buffer. \<^verbatim>\<open>_on_pyglet_keypress\<close> reads \<^verbatim>\<open>clock()\<close> and
  decodes the symbol with pyglet's tables, \<^verbatim>\<open>_on_pyglet_mouse_click\<close> does the same with
  the button: an event is given here as the decoded name and the device time read.
\<close>

datatype raw_event = KeyPress string real | MousePress string int int real

text \<open>The argument of \<^verbatim>\<open>check_force_quit\<close>: \<^verbatim>\<open>None\<close>, a string, a list, or anything else.\<close>

datatype fq_arg = KeysNone | KeysStr string | KeysList "string list" | KeysOther

text \<open>
  The trace of what the monitors did to their collaborators and to their buffers, in
  order: the call of \<^verbatim>\<open>wait_secs\<close>, each entry into \<^verbatim>\<open>check_force_quit\<close>, each reset of a
  buffer and each call of the recorder.
\<close>

datatype call =
    WaitSecs pyfloat
  | CheckForceQuit fq_arg
  | ClearKeyboard
  | ClearMouse
  | LogPresses "key_event list"
  | LogClicks "click_event list"

text \<open>
  \<open>clock_script\<close> gives the reading of the \<open>n\<close>-th call of \<^verbatim>\<open>master_clock()\<close> and
  \<open>event_script\<close> the events that the \<open>n\<close>-th call of \<^verbatim>\<open>win.dispatch_events()\<close> hands to
  the handlers; \<open>clock_calls\<close> and \<open>dispatch_calls\<close> count the calls made so far.
\<close>

record world =
  force_quit_keys :: "string list"
  kb_listen_start :: "real option"
  kb_time_correction :: real
  keyboard_buffer :: "key_event list"
  ms_listen_start :: "real option"
  ms_time_correction :: real
  mouse_buffer :: "click_event list"
  clock_script :: "nat \<Rightarrow> real"
  clock_calls :: nat
  event_script :: "nat \<Rightarrow> raw_event list"
  dispatch_calls :: nat
  calls :: "call list"

subsection \<open>Collaborators\<close>

definition master_clock :: "world \<Rightarrow> real \<times> world" where
  "master_clock w = (clock_script w (clock_calls w), w\<lparr>clock_calls := Suc (clock_calls w)\<rparr>)"

fun key_events :: "raw_event list \<Rightarrow> key_event list" where
  "key_events [] = []"
| "key_events (KeyPress k t # es) = (k, t) # key_events es"
| "key_events (MousePress b x y t # es) = key_events es"

fun click_events :: "raw_event list \<Rightarrow> click_event list" where
  "click_events [] = []"
| "click_events (KeyPress k t # es) = click_events es"
| "click_events (MousePress b x y t # es) = (b, x, y, t) # click_events es"

text \<open>
  \<^verbatim>\<open>win.dispatch_events()\<close>: the window calls \<^verbatim>\<open>on_key_press\<close> and \<^verbatim>\<open>on_mouse_press\<close>, the
  handlers both monitors installed, for the pending events in order; each handler appends
  to its own buffer.
\<close>

definition dispatch_events :: "world \<Rightarrow> world" where
  "dispatch_events w =
     (let evs = event_script w (dispatch_calls w)
      in w\<lparr>keyboard_buffer := keyboard_buffer w @ key_events evs,
           mouse_buffer := mouse_buffer w @ click_events evs,
           dispatch_calls := Suc (dispatch_calls w)\<rparr>)"

text \<open>
  Modelled from the spec: \<^verbatim>\<open>wait_secs\<close> of \<^verbatim>\<open>_utils\<close> is not among the sources. The spec
  says that a wait blocks for at least \<^verbatim>\<open>min_wait\<close> seconds; the time that passes shows
  in the later clock readings and the events that arrive meanwhile are handed over by the
  next pump, both given by the scripts. A wait for infinitely many seconds never ends: its
  value is \<open>None\<close>.
\<close>

definition wait_secs :: "pyfloat \<Rightarrow> world \<Rightarrow> world option" where
  "wait_secs secs w =
     (if secs = PInf then None else Some (w\<lparr>calls := calls w @ [WaitSecs secs]\<rparr>))"

definition log_presses :: "key_event list \<Rightarrow> world \<Rightarrow> world" where
  "log_presses pressed w = w\<lparr>calls := calls w @ [LogPresses pressed]\<rparr>"

definition log_clicks :: "click_event list \<Rightarrow> world \<Rightarrow> world" where
  "log_clicks clicked w = w\<lparr>calls := calls w @ [LogClicks clicked]\<rparr>"

subsection \<open>Keyboard\<close>

definition clear_keyboard_events :: "world \<Rightarrow> world" where
  "clear_keyboard_events w =
     (let w1 = dispatch_events w
      in w1\<lparr>keyboard_buffer := [], calls := calls w1 @ [ClearKeyboard]\<rparr>)"

definition retrieve_keyboard_events :: "pykey list option \<Rightarrow> world \<Rightarrow> key_event list \<times> world" where
  "retrieve_keyboard_events live_keys w =
     (let live_keys1 = (case live_keys of None \<Rightarrow> None
                        | Some ks \<Rightarrow> Some (map py_str ks @ force_quit_keys w));
          w1 = dispatch_events w;
          targets = filter (\<lambda>key. case live_keys1 of None \<Rightarrow> True
                                   | Some ks \<Rightarrow> fst key \<in> set ks) (keyboard_buffer w1)
      in (targets, w1))"

text \<open>\<^verbatim>\<open>listen_presses\<close>; the value that \<^verbatim>\<open>get_time_corr()\<close> returns is a parameter.\<close>

definition listen_presses :: "real \<Rightarrow> world \<Rightarrow> world" where
  "listen_presses time_corr w =
     (let w1 = w\<lparr>kb_time_correction := time_corr\<rparr>;
          (t, w2) = master_clock w1
      in clear_keyboard_events (w2\<lparr>kb_listen_start := Some t\<rparr>))"

definition check_force_quit :: "fq_arg \<Rightarrow> world \<Rightarrow> (error + unit) \<times> world" where
  "check_force_quit keys w =
     (let w0 = w\<lparr>calls := calls w @ [CheckForceQuit keys]\<rparr>;
          (r, w1) = (case keys of
               KeysNone \<Rightarrow>
                 (let (ks, w1) = retrieve_keyboard_events (Some []) w0 in (Inr (length ks), w1))
             | KeysStr s \<Rightarrow> (Inr (length (filter (\<lambda>k. k \<in> set (force_quit_keys w0)) [s])), w0)
             | KeysList ks \<Rightarrow> (Inr (length (filter (\<lambda>k. k \<in> set (force_quit_keys w0)) ks)), w0)
             | KeysOther \<Rightarrow>
                 (Inl (TypeError ''Force quit checking requires a string or  list of strings''),
                  w0))
      in case r of
           Inl e \<Rightarrow> (Inl e, w1)
         | Inr n \<Rightarrow> if n \<noteq> 0 then (Inl (RuntimeError ''Quit key pressed''), w1)
                    else (Inr (), w1))"

text \<open>An element of what \<^verbatim>\<open>_correct_presses\<close> returns: a pair with the time, or the key alone.\<close>

datatype press_out = KeyTime string real | KeyOnly string

definition correct_presses ::
  "key_event list \<Rightarrow> bool \<Rightarrow> real option \<Rightarrow> world \<Rightarrow> (error + press_out list) \<times> world" where
  "correct_presses pressed timestamp relative_to w =
     (if pressed \<noteq> [] then
        (let pressed1 = map (\<lambda>(k, s). (k, s + kb_time_correction w)) pressed;
             w1 = log_presses pressed1 w;
             keys = map fst pressed1;
             (r, w2) = check_force_quit (KeysList keys) w1
         in case r of
              Inl e \<Rightarrow> (Inl e, w2)
            | Inr _ \<Rightarrow>
                if timestamp then
                  (case relative_to of
                     None \<Rightarrow> (Inl (TypeError ''unsupported operand type(s) for -''), w2)
                   | Some rel \<Rightarrow> (Inr (map (\<lambda>(k, s). KeyTime k (s - rel)) pressed1), w2))
                else (Inr (map KeyOnly keys), w2))
      else (Inr [], w))"

definition get_presses ::
  "pykey list option \<Rightarrow> bool \<Rightarrow> real option \<Rightarrow> world \<Rightarrow> (error + press_out list) \<times> world" where
  "get_presses live_keys timestamp relative_to w =
     (if timestamp \<and> relative_to = None \<and> kb_listen_start w = None then
        (Inl (ValueError
           ''I cannot timestamp: relative_to is None and you have not yet called listen_presses.''),
         w)
      else
        (let relative_to1 = (if timestamp \<and> relative_to = None then kb_listen_start w
                             else relative_to);
             (pressed, w1) = retrieve_keyboard_events live_keys w
         in correct_presses pressed timestamp relative_to1 w1))"

definition init_wait_press ::
  "pyfloat \<Rightarrow> pyfloat \<Rightarrow> pykey list option \<Rightarrow> bool \<Rightarrow> real option \<Rightarrow> world
     \<Rightarrow> ((error + real option \<times> real) \<times> world) option" where
  "init_wait_press max_wait min_wait live_keys timestamp relative_to w =
     (if isinf max_wait \<and> live_keys = Some [] then
        Some (Inl (ValueError ''max_wait cannot be infinite if there are no live keys.''), w)
      else if \<not> fl_le min_wait max_wait then
        Some (Inl (ValueError ''min_wait must be less than max_wait''), w)
      else
        (let (start_time, w1) = master_clock w;
             relative_to1 = (if timestamp \<and> relative_to = None then Some start_time
                             else relative_to)
         in case wait_secs min_wait w1 of
              None \<Rightarrow> None
            | Some w2 \<Rightarrow>
                (let (r, w3) = check_force_quit KeysNone w2
                 in case r of
                      Inl e \<Rightarrow> Some (Inl e, w3)
                    | Inr _ \<Rightarrow> Some (Inr (relative_to1, start_time), clear_keyboard_events w3))))"

text \<open>
  The polling loops. Nothing bounds the number of rounds (the clock may stand still, and
  \<^verbatim>\<open>max_wait\<close> may be infinite), so a loop that runs forever has the value \<open>None\<close>.
\<close>

partial_function (option) wait_one_press_loop ::
  "pyfloat \<Rightarrow> real \<Rightarrow> pykey list option \<Rightarrow> key_event list \<Rightarrow> world
     \<Rightarrow> (key_event list \<times> world) option" where
  "wait_one_press_loop max_wait start_time live_keys pressed w =
     (if pressed = [] then
        (case master_clock w of (t, w1) \<Rightarrow>
           if fl_lt (Fin (t - start_time)) max_wait then
             (case retrieve_keyboard_events live_keys w1 of (pressed1, w2) \<Rightarrow>
                wait_one_press_loop max_wait start_time live_keys pressed1 w2)
           else Some (pressed, w1))
      else Some (pressed, w))"

partial_function (option) wait_for_presses_loop ::
  "pyfloat \<Rightarrow> real \<Rightarrow> pykey list option \<Rightarrow> key_event list \<Rightarrow> world
     \<Rightarrow> (key_event list \<times> world) option" where
  "wait_for_presses_loop max_wait start_time live_keys pressed w =
     (case master_clock w of (t, w1) \<Rightarrow>
        if fl_lt (Fin (t - start_time)) max_wait then
          (case retrieve_keyboard_events live_keys w1 of (pressed1, w2) \<Rightarrow>
             wait_for_presses_loop max_wait start_time live_keys pressed1 w2)
        else Some (pressed, w1))"

text \<open>
  What a \<^verbatim>\<open>wait_one\<close> method returns: one event, the pair \<^verbatim>\<open>(None, None)\<close> or \<^verbatim>\<open>None\<close>.
\<close>

datatype 'a one_result = One 'a | NoneNone | PyNone

definition wait_one_press ::
  "pyfloat \<Rightarrow> pyfloat \<Rightarrow> pykey list option \<Rightarrow> bool \<Rightarrow> real option \<Rightarrow> world
     \<Rightarrow> ((error + press_out one_result) \<times> world) option" where
  "wait_one_press max_wait min_wait live_keys timestamp relative_to w =
     (case init_wait_press max_wait min_wait live_keys timestamp relative_to w of
        None \<Rightarrow> None
      | Some (Inl e, w0) \<Rightarrow> Some (Inl e, w0)
      | Some (Inr (relative_to1, start_time), w0) \<Rightarrow>
          (case wait_one_press_loop max_wait start_time live_keys [] w0 of
             None \<Rightarrow> None
           | Some (pressed, w1) \<Rightarrow>
               Some (if pressed \<noteq> [] then
                       (case correct_presses pressed timestamp relative_to1 w1 of
                          (Inl e, w2) \<Rightarrow> (Inl e, w2)
                        | (Inr [], w2) \<Rightarrow> (Inl IndexError, w2)
                        | (Inr (p # ps), w2) \<Rightarrow> (Inr (One p), w2))
                     else if timestamp then (Inr NoneNone, w1)
                     else (Inr PyNone, w1))))"

definition wait_for_presses ::
  "pyfloat \<Rightarrow> pyfloat \<Rightarrow> pykey list option \<Rightarrow> bool \<Rightarrow> real option \<Rightarrow> world
     \<Rightarrow> ((error + press_out list) \<times> world) option" where
  "wait_for_presses max_wait min_wait live_keys timestamp relative_to w =
     (case init_wait_press max_wait min_wait live_keys timestamp relative_to w of
        None \<Rightarrow> None
      | Some (Inl e, w0) \<Rightarrow> Some (Inl e, w0)
      | Some (Inr (relative_to1, start_time), w0) \<Rightarrow>
          (case wait_for_presses_loop max_wait start_time live_keys [] w0 of
             None \<Rightarrow> None
           | Some (pressed, w1) \<Rightarrow> Some (correct_presses pressed timestamp relative_to1 w1)))"

subsection \<open>Mouse\<close>

definition clear_mouse_events :: "world \<Rightarrow> world" where
  "clear_mouse_events w =
     (let w1 = dispatch_events w
      in w1\<lparr>mouse_buffer := [], calls := calls w1 @ [ClearMouse]\<rparr>)"

definition retrieve_mouse_events :: "string list option \<Rightarrow> world \<Rightarrow> click_event list \<times> world" where
  "retrieve_mouse_events live_buttons w =
     (let w1 = dispatch_events w;
          targets = filter (\<lambda>button. case live_buttons of None \<Rightarrow> True
                                      | Some bs \<Rightarrow> fst button \<in> set bs) (mouse_buffer w1)
      in (targets, w1))"

text \<open>
  Modelled from the spec: \<^verbatim>\<open>ec.check_force_quit\<close>, which \<^verbatim>\<open>Mouse.__init__\<close> stores as
  \<^verbatim>\<open>_check_force_quit\<close>, is a method of the experiment controller and not among the
  sources. The spec says that the pointer monitor holds a reference to the keyboard
  monitor's \<^verbatim>\<open>check_force_quit\<close>; the mouse calls it without an argument.
\<close>

definition ec_check_force_quit :: "world \<Rightarrow> (error + unit) \<times> world" where
  "ec_check_force_quit w = check_force_quit KeysNone w"

definition listen_clicks :: "real \<Rightarrow> world \<Rightarrow> world" where
  "listen_clicks time_corr w =
     (let w1 = w\<lparr>ms_time_correction := time_corr\<rparr>;
          (t, w2) = master_clock w1
      in clear_mouse_events (w2\<lparr>ms_listen_start := Some t\<rparr>))"

datatype click_out = ClickTime string int int real | ClickOnly string int int

definition correct_clicks ::
  "click_event list \<Rightarrow> bool \<Rightarrow> real option \<Rightarrow> world \<Rightarrow> (error + click_out list) \<times> world" where
  "correct_clicks clicked timestamp relative_to w =
     (if clicked \<noteq> [] then
        (let clicked1 = map (\<lambda>(b, x, y, s). (b, x, y, s + ms_time_correction w)) clicked;
             w1 = log_clicks clicked1 w;
             buttons = map (\<lambda>(b, x, y, s). ClickOnly b x y) clicked1;
             (r, w2) = ec_check_force_quit w1
         in case r of
              Inl e \<Rightarrow> (Inl e, w2)
            | Inr _ \<Rightarrow>
                if timestamp then
                  (case relative_to of
                     None \<Rightarrow> (Inl (TypeError ''unsupported operand type(s) for -''), w2)
                   | Some rel \<Rightarrow>
                       (Inr (map (\<lambda>(b, x, y, s). ClickTime b x y (s - rel)) clicked1), w2))
                else (Inr buttons, w2))
      else (Inr [], w))"

definition get_clicks ::
  "string list option \<Rightarrow> bool \<Rightarrow> real option \<Rightarrow> world \<Rightarrow> (error + click_out list) \<times> world" where
  "get_clicks live_buttons timestamp relative_to w =
     (if timestamp \<and> relative_to = None \<and> ms_listen_start w = None then
        (Inl (ValueError
           ''I cannot timestamp: relative_to is None and you have not yet called listen_clicks.''),
         w)
      else
        (let relative_to1 = (if timestamp \<and> relative_to = None then ms_listen_start w
                             else relative_to);
             (clicked, w1) = retrieve_mouse_events live_buttons w
         in correct_clicks clicked timestamp relative_to1 w1))"

definition init_wait_click ::
  "pyfloat \<Rightarrow> pyfloat \<Rightarrow> string list option \<Rightarrow> bool \<Rightarrow> real option \<Rightarrow> world
     \<Rightarrow> ((error + real option \<times> real) \<times> world) option" where
  "init_wait_click max_wait min_wait live_buttons timestamp relative_to w =
     (if isinf max_wait \<and> live_buttons = Some [] then
        Some (Inl (ValueError ''max_wait cannot be infinite if there are no live mouse buttons.''), w)
      else if \<not> fl_le min_wait max_wait then
        Some (Inl (ValueError ''min_wait must be less than max_wait''), w)
      else
        (let (start_time, w1) = master_clock w;
             relative_to1 = (if timestamp \<and> relative_to = None then Some start_time
                             else relative_to)
         in case wait_secs min_wait w1 of
              None \<Rightarrow> None
            | Some w2 \<Rightarrow>
                (let (r, w3) = ec_check_force_quit w2
                 in case r of
                      Inl e \<Rightarrow> Some (Inl e, w3)
                    | Inr _ \<Rightarrow> Some (Inr (relative_to1, start_time), clear_mouse_events w3))))"

partial_function (option) wait_one_click_loop ::
  "pyfloat \<Rightarrow> real \<Rightarrow> string list option \<Rightarrow> click_event list \<Rightarrow> world
     \<Rightarrow> (click_event list \<times> world) option" where
  "wait_one_click_loop max_wait start_time live_buttons clicked w =
     (if clicked = [] then
        (case master_clock w of (t, w1) \<Rightarrow>
           if fl_lt (Fin (t - start_time)) max_wait then
             (case retrieve_mouse_events live_buttons w1 of (clicked1, w2) \<Rightarrow>
                wait_one_click_loop max_wait start_time live_buttons clicked1 w2)
           else Some (clicked, w1))
      else Some (clicked, w))"

partial_function (option) wait_for_clicks_loop ::
  "pyfloat \<Rightarrow> real \<Rightarrow> string list option \<Rightarrow> click_event list \<Rightarrow> world
     \<Rightarrow> (click_event list \<times> world) option" where
  "wait_for_clicks_loop max_wait start_time live_buttons clicked w =
     (case master_clock w of (t, w1) \<Rightarrow>
        if fl_lt (Fin (t - start_time)) max_wait then
          (case retrieve_mouse_events live_buttons w1 of (clicked1, w2) \<Rightarrow>
             wait_for_clicks_loop max_wait start_time live_buttons clicked1 w2)
        else Some (clicked, w1))"

definition wait_one_click ::
  "pyfloat \<Rightarrow> pyfloat \<Rightarrow> string list option \<Rightarrow> bool \<Rightarrow> real option \<Rightarrow> world
     \<Rightarrow> ((error + click_out one_result) \<times> world) option" where
  "wait_one_click max_wait min_wait live_buttons timestamp relative_to w =
     (case init_wait_click max_wait min_wait live_buttons timestamp relative_to w of
        None \<Rightarrow> None
      | Some (Inl e, w0) \<Rightarrow> Some (Inl e, w0)
      | Some (Inr (relative_to1, start_time), w0) \<Rightarrow>
          (case wait_one_click_loop max_wait start_time live_buttons [] w0 of
             None \<Rightarrow> None
           | Some (clicked, w1) \<Rightarrow>
               Some (if clicked \<noteq> [] then
                       (case correct_clicks clicked timestamp relative_to1 w1 of
                          (Inl e, w2) \<Rightarrow> (Inl e, w2)
                        | (Inr [], w2) \<Rightarrow> (Inl IndexError, w2)
                        | (Inr (c # cs), w2) \<Rightarrow> (Inr (One c), w2))
                     else if timestamp then (Inr NoneNone, w1)
                     else (Inr PyNone, w1))))"

definition wait_for_clicks ::
  "pyfloat \<Rightarrow> pyfloat \<Rightarrow> string list option \<Rightarrow> bool \<Rightarrow> real option \<Rightarrow> world
     \<Rightarrow> ((error + click_out list) \<times> world) option" where
  "wait_for_clicks max_wait min_wait live_buttons timestamp relative_to w =
     (case init_wait_click max_wait min_wait live_buttons timestamp relative_to w of
        None \<Rightarrow> None
      | Some (Inl e, w0) \<Rightarrow> Some (Inl e, w0)
      | Some (Inr (relative_to1, start_time), w0) \<Rightarrow>
          (case wait_for_clicks_loop max_wait start_time live_buttons [] w0 of
             None \<Rightarrow> None
           | Some (clicked, w1) \<Rightarrow> Some (correct_clicks clicked timestamp relative_to1 w1)))"

subsection \<open>Vocabulary of the statements\<close>

text \<open>
  \<open>key_live live_keys w\<close> is the test that \<^verbatim>\<open>_retrieve_keyboard_events\<close> applies to a
  buffered event: no filter, or the key among the filter extended with the force-quit keys.
\<close>

definition key_live :: "pykey list option \<Rightarrow> world \<Rightarrow> key_event \<Rightarrow> bool" where
  "key_live live_keys w =
     (\<lambda>e. case live_keys of None \<Rightarrow> True
          | Some ks \<Rightarrow> fst e \<in> set (map py_str ks) \<union> set (force_quit_keys w))"

definition button_live :: "string list option \<Rightarrow> click_event \<Rightarrow> bool" where
  "button_live live_buttons =
     (\<lambda>e. case live_buttons of None \<Rightarrow> True | Some bs \<Rightarrow> fst e \<in> set bs)"

text \<open>A force-quit key is in the keyboard buffer once the pending events are pumped.\<close>

definition quit_pending :: "world \<Rightarrow> bool" where
  "quit_pending w =
     (\<exists>e\<in>set (keyboard_buffer (dispatch_events w)). fst e \<in> set (force_quit_keys w))"

text \<open>
  The polling loops read the clock and pump once per round. \<open>in_time w start_time max_wait i\<close>
  says that the \<open>i\<close>-th coming clock reading is still less than \<^verbatim>\<open>max_wait\<close> after
  \<open>start_time\<close>; \<open>arrived w n\<close> are the events that the coming \<open>n\<close> pumps hand over;
  \<open>polled n w\<close> is the world after \<open>n\<close> rounds and \<open>timed_out n w\<close> the world after \<open>n\<close>
  rounds and the clock reading that ends the loop; \<open>keys_seen\<close> and \<open>clicks_seen\<close> are
  what the retrieval of the \<open>n\<close>-th round returns.
\<close>

definition in_time :: "world \<Rightarrow> real \<Rightarrow> pyfloat \<Rightarrow> nat \<Rightarrow> bool" where
  "in_time w start_time max_wait i =
     fl_lt (Fin (clock_script w (clock_calls w + i) - start_time)) max_wait"

definition arrived :: "world \<Rightarrow> nat \<Rightarrow> raw_event list" where
  "arrived w n = concat (map (event_script w) [dispatch_calls w ..< dispatch_calls w + n])"

definition polled :: "nat \<Rightarrow> world \<Rightarrow> world" where
  "polled n w =
     w\<lparr>keyboard_buffer := keyboard_buffer w @ key_events (arrived w n),
       mouse_buffer := mouse_buffer w @ click_events (arrived w n),
       clock_calls := clock_calls w + n,
       dispatch_calls := dispatch_calls w + n\<rparr>"

definition keys_seen :: "pykey list option \<Rightarrow> world \<Rightarrow> nat \<Rightarrow> key_event list" where
  "keys_seen live_keys w n = filter (key_live live_keys w) (keyboard_buffer (polled n w))"

definition clicks_seen :: "string list option \<Rightarrow> world \<Rightarrow> nat \<Rightarrow> click_event list" where
  "clicks_seen live_buttons w n = filter (button_live live_buttons) (mouse_buffer (polled n w))"

definition timed_out :: "nat \<Rightarrow> world \<Rightarrow> world" where
  "timed_out n w = (polled n w)\<lparr>clock_calls := Suc (clock_calls w + n)\<rparr>"

text \<open>Two worlds on which the statements are tried.\<close>

definition quiet_world :: world where
  "quiet_world =
     \<lparr>force_quit_keys = [''escape''],
      kb_listen_start = None, kb_time_correction = 0, keyboard_buffer = [],
      ms_listen_start = None, ms_time_correction = 0, mouse_buffer = [],
      clock_script = (\<lambda>n. real n), clock_calls = 0,
      event_script = (\<lambda>n. []), dispatch_calls = 0,
      calls = []\<rparr>"

definition busy_world :: world where
  "busy_world =
     \<lparr>force_quit_keys = [''escape''],
      kb_listen_start = Some 1, kb_time_correction = 1 / 4, keyboard_buffer = [(''a'', 2)],
      ms_listen_start = Some 1, ms_time_correction = 1 / 2, mouse_buffer = [(''left'', 10, 20, 3)],
      clock_script = (\<lambda>n. 4 + real n), clock_calls = 0,
      event_script = (\<lambda>n. if n = 0 then [KeyPress ''b'' 4, MousePress ''right'' 5 6 5] else []),
      dispatch_calls = 0,
      calls = []\<rparr>"

text \<open>
  A third world, in which two keys and a click arrive at the fourth pump, and the worlds it
  becomes when a keyboard wait and a mouse wait with no settle delay have started.
\<close>

definition typing_world :: world where
  "typing_world =
     \<lparr>force_quit_keys = [''escape''],
      kb_listen_start = None, kb_time_correction = 1 / 4, keyboard_buffer = [(''z'', 0)],
      ms_listen_start = None, ms_time_correction = 1 / 2, mouse_buffer = [(''middle'', 0, 0, 0)],
      clock_script = (\<lambda>n. real n), clock_calls = 0,
      event_script = (\<lambda>n.
        if n = 0 then [KeyPress ''y'' (1 / 2), MousePress ''right'' 1 1 (1 / 2)]
        else if n = 3 then [KeyPress ''a'' 2, MousePress ''left'' 3 4 2, KeyPress ''b'' (5 / 2)]
        else []),
      dispatch_calls = 0,
      calls = []\<rparr>"

definition keys_settled :: world where
  "keys_settled =
     typing_world\<lparr>keyboard_buffer := [],
       mouse_buffer := [(''middle'', 0, 0, 0), (''right'', 1, 1, 1 / 2)],
       clock_calls := 1, dispatch_calls := 2,
       calls := [WaitSecs (Fin 0), CheckForceQuit KeysNone, ClearKeyboard]\<rparr>"

definition clicks_settled :: world where
  "clicks_settled =
     typing_world\<lparr>keyboard_buffer := [(''z'', 0), (''y'', 1 / 2)],
       mouse_buffer := [],
       clock_calls := 1, dispatch_calls := 2,
       calls := [WaitSecs (Fin 0), CheckForceQuit KeysNone, ClearMouse]\<rparr>"

text \<open>A world in which a force-quit key is pressed while a wait settles.\<close>

definition settle_quit_world :: world where
  "settle_quit_world =
     quiet_world\<lparr>event_script :=
       (\<lambda>n. if n = 0 then [KeyPress ''x'' (1 / 4), KeyPress ''escape'' (1 / 2)] else [])\<rparr>"

text \<open>
  Two worlds in which a force-quit key is pressed while a wait polls, in the second
  together with a click, and the worlds they become when a wait with no settle delay has
  started.
\<close>

definition late_quit_world :: world where
  "late_quit_world =
     quiet_world\<lparr>event_script := (\<lambda>n. if n = 2 then [KeyPress ''escape'' (3 / 2)] else [])\<rparr>"

definition late_clicks_settled :: world where
  "late_clicks_settled =
     late_quit_world\<lparr>clock_calls := 1, dispatch_calls := 2,
       calls := [WaitSecs (Fin 0), CheckForceQuit KeysNone, ClearMouse]\<rparr>"

definition click_quit_world :: world where
  "click_quit_world =
     quiet_world\<lparr>event_script :=
       (\<lambda>n. if n = 2 then [MousePress ''left'' 1 2 (5 / 4), KeyPress ''escape'' (3 / 2)] else [])\<rparr>"

definition click_quit_keys_settled :: world where
  "click_quit_keys_settled =
     click_quit_world\<lparr>clock_calls := 1, dispatch_calls := 2,
       calls := [WaitSecs (Fin 0), CheckForceQuit KeysNone, ClearKeyboard]\<rparr>"

definition click_quit_clicks_settled :: world where
  "click_quit_clicks_settled =
     click_quit_world\<lparr>clock_calls := 1, dispatch_calls := 2,
       calls := [WaitSecs (Fin 0), CheckForceQuit KeysNone, ClearMouse]\<rparr>"

section \<open>Properties\<close>

subsection \<open>What the methods compute\<close>

lemma dispatch_fields [simp]:
  "force_quit_keys (dispatch_events w) = force_quit_keys w"
  "kb_listen_start (dispatch_events w) = kb_listen_start w"
  "kb_time_correction (dispatch_events w) = kb_time_correction w"
  "ms_listen_start (dispatch_events w) = ms_listen_start w"
  "ms_time_correction (dispatch_events w) = ms_time_correction w"
  "clock_script (dispatch_events w) = clock_script w"
  "clock_calls (dispatch_events w) = clock_calls w"
  "event_script (dispatch_events w) = event_script w"
  "dispatch_calls (dispatch_events w) = Suc (dispatch_calls w)"
  "calls (dispatch_events w) = calls w"
  "keyboard_buffer (dispatch_events w) =
     keyboard_buffer w @ key_events (event_script w (dispatch_calls w))"
  "mouse_buffer (dispatch_events w) =
     mouse_buffer w @ click_events (event_script w (dispatch_calls w))"
  by (simp_all add: dispatch_events_def Let_def)

lemma quit_pending_same [simp]:
  "quit_pending (w\<lparr>clock_calls := c\<rparr>) = quit_pending w"
  "quit_pending (w\<lparr>calls := cs\<rparr>) = quit_pending w"
  by (simp_all add: quit_pending_def dispatch_events_def Let_def)

lemma key_live_same [simp]:
  "key_live live_keys (dispatch_events w) = key_live live_keys w"
  "key_live live_keys (w\<lparr>clock_calls := c\<rparr>) = key_live live_keys w"
  by (cases live_keys; simp add: key_live_def)+

lemma check_force_quit_list:
  "check_force_quit (KeysList ks) w =
     (if \<exists>k\<in>set ks. k \<in> set (force_quit_keys w)
      then Inl (RuntimeError ''Quit key pressed'') else Inr (),
      w\<lparr>calls := calls w @ [CheckForceQuit (KeysList ks)]\<rparr>)"
  by (auto simp add: check_force_quit_def Let_def filter_empty_conv)

lemma check_force_quit_none:
  "check_force_quit KeysNone w =
     (if quit_pending w then Inl (RuntimeError ''Quit key pressed'') else Inr (),
      dispatch_events (w\<lparr>calls := calls w @ [CheckForceQuit KeysNone]\<rparr>))"
  by (auto simp add: check_force_quit_def retrieve_keyboard_events_def quit_pending_def
        Let_def filter_empty_conv)

lemma retrieve_keyboard_events_live:
  "retrieve_keyboard_events live_keys w =
     (filter (key_live live_keys w) (keyboard_buffer (dispatch_events w)), dispatch_events w)"
  by (cases live_keys) (simp_all add: retrieve_keyboard_events_def key_live_def Let_def)

lemma retrieve_mouse_events_live:
  "retrieve_mouse_events live_buttons w =
     (filter (button_live live_buttons) (mouse_buffer (dispatch_events w)), dispatch_events w)"
  by (simp add: retrieve_mouse_events_def button_live_def Let_def)

lemma correct_presses_eq:
  "correct_presses pressed timestamp relative_to w =
     (if pressed = [] then (Inr [], w)
      else
        (if \<exists>e\<in>set pressed. fst e \<in> set (force_quit_keys w)
           then Inl (RuntimeError ''Quit key pressed'')
         else if timestamp then
           (case relative_to of
              None \<Rightarrow> Inl (TypeError ''unsupported operand type(s) for -'')
            | Some rel \<Rightarrow> Inr (map (\<lambda>(k, t0). KeyTime k (t0 + kb_time_correction w - rel)) pressed))
         else Inr (map (\<lambda>(k, t0). KeyOnly k) pressed),
         w\<lparr>calls := calls w @
              [LogPresses (map (\<lambda>(k, t0). (k, t0 + kb_time_correction w)) pressed),
               CheckForceQuit (KeysList (map fst pressed))]\<rparr>))"
  by (auto simp add: correct_presses_def check_force_quit_list log_presses_def Let_def
        case_prod_unfold comp_def split: option.splits)

lemma correct_clicks_eq:
  "correct_clicks clicked timestamp relative_to w =
     (if clicked = [] then (Inr [], w)
      else
        (if quit_pending w then Inl (RuntimeError ''Quit key pressed'')
         else if timestamp then
           (case relative_to of
              None \<Rightarrow> Inl (TypeError ''unsupported operand type(s) for -'')
            | Some rel \<Rightarrow>
                Inr (map (\<lambda>(b, x, y, t0). ClickTime b x y (t0 + ms_time_correction w - rel)) clicked))
         else Inr (map (\<lambda>(b, x, y, t0). ClickOnly b x y) clicked),
         dispatch_events (w\<lparr>calls := calls w @
              [LogClicks (map (\<lambda>(b, x, y, t0). (b, x, y, t0 + ms_time_correction w)) clicked),
               CheckForceQuit KeysNone]\<rparr>)))"
  by (auto simp add: correct_clicks_def ec_check_force_quit_def check_force_quit_none
        log_clicks_def Let_def case_prod_unfold comp_def dispatch_events_def
        split: option.splits)

subsection \<open>The polling loops\<close>

lemma key_events_append [simp]: "key_events (xs @ ys) = key_events xs @ key_events ys"
  by (induction xs rule: key_events.induct) simp_all

lemma click_events_append [simp]: "click_events (xs @ ys) = click_events xs @ click_events ys"
  by (induction xs rule: click_events.induct) simp_all

lemma arrived_0 [simp]: "arrived w 0 = []"
  by (simp add: arrived_def)

lemma arrived_Suc: "arrived w (Suc n) = arrived w n @ event_script w (dispatch_calls w + n)"
  by (simp add: arrived_def)

lemma polled_0 [simp]: "polled 0 w = w"
  by (simp add: polled_def)

lemma polled_fields:
  "force_quit_keys (polled n w) = force_quit_keys w"
  "kb_listen_start (polled n w) = kb_listen_start w"
  "kb_time_correction (polled n w) = kb_time_correction w"
  "ms_listen_start (polled n w) = ms_listen_start w"
  "ms_time_correction (polled n w) = ms_time_correction w"
  "clock_script (polled n w) = clock_script w"
  "clock_calls (polled n w) = clock_calls w + n"
  "event_script (polled n w) = event_script w"
  "dispatch_calls (polled n w) = dispatch_calls w + n"
  "calls (polled n w) = calls w"
  "keyboard_buffer (polled n w) = keyboard_buffer w @ key_events (arrived w n)"
  "mouse_buffer (polled n w) = mouse_buffer w @ click_events (arrived w n)"
  by (simp_all add: polled_def)

lemma polled_1: "polled (Suc 0) w = dispatch_events (w\<lparr>clock_calls := Suc (clock_calls w)\<rparr>)"
  by (simp add: polled_def arrived_def dispatch_events_def Let_def)

lemma arrived_1: "arrived w (Suc 0) = event_script w (dispatch_calls w)"
  by (simp add: arrived_def)

lemma arrived_front: "arrived w (Suc n) = arrived w (Suc 0) @ arrived (polled (Suc 0) w) n"
proof -
  have "[dispatch_calls w ..< dispatch_calls w + Suc n] =
          dispatch_calls w # [Suc (dispatch_calls w) ..< Suc (dispatch_calls w) + n]"
    by (simp add: upt_conv_Cons del: upt_Suc)
  then show ?thesis
    unfolding arrived_1 by (simp add: arrived_def polled_fields del: upt_Suc)
qed

lemma polled_Suc: "polled (Suc n) w = polled n (polled (Suc 0) w)"
  unfolding polled_def [of "Suc n"] arrived_front [of w n]
  by (simp add: polled_def)

lemma in_time_Suc: "in_time (polled (Suc 0) w) st mx i = in_time w st mx (Suc i)"
  by (simp add: in_time_def polled_fields)

lemma key_live_polled: "key_live live (polled n w) = key_live live w"
  by (cases live; simp add: key_live_def polled_fields)

lemma keys_seen_Suc: "keys_seen live (polled (Suc 0) w) n = keys_seen live w (Suc n)"
  by (simp add: keys_seen_def polled_Suc [of n] key_live_polled)

lemma clicks_seen_Suc: "clicks_seen live (polled (Suc 0) w) n = clicks_seen live w (Suc n)"
  by (simp add: clicks_seen_def polled_Suc [of n])

lemma timed_out_Suc: "timed_out n (polled (Suc 0) w) = timed_out (Suc n) w"
  by (simp add: timed_out_def polled_Suc [of n] polled_fields)

lemma timed_out_0: "snd (master_clock w) = timed_out 0 w"
  by (simp add: timed_out_def master_clock_def)

lemma keyboard_round:
  "retrieve_keyboard_events live (timed_out 0 w) = (keys_seen live w (Suc 0), polled (Suc 0) w)"
  by (simp add: retrieve_keyboard_events_live timed_out_def keys_seen_def polled_1)

lemma mouse_round:
  "retrieve_mouse_events live (timed_out 0 w) = (clicks_seen live w (Suc 0), polled (Suc 0) w)"
  by (simp add: retrieve_mouse_events_live timed_out_def clicks_seen_def polled_1)

lemma fst_master_clock: "fl_lt (Fin (fst (master_clock w) - st)) mx = in_time w st mx 0"
  by (simp add: master_clock_def in_time_def)

lemma wait_for_presses_loop_step:
  "wait_for_presses_loop mx st live pressed w =
     (if in_time w st mx 0
      then wait_for_presses_loop mx st live (keys_seen live w (Suc 0)) (polled (Suc 0) w)
      else Some (pressed, timed_out 0 w))"
  by (subst wait_for_presses_loop.simps)
     (simp add: case_prod_unfold fst_master_clock keyboard_round timed_out_0)

lemma wait_for_clicks_loop_step:
  "wait_for_clicks_loop mx st live clicked w =
     (if in_time w st mx 0
      then wait_for_clicks_loop mx st live (clicks_seen live w (Suc 0)) (polled (Suc 0) w)
      else Some (clicked, timed_out 0 w))"
  by (subst wait_for_clicks_loop.simps)
     (simp add: case_prod_unfold fst_master_clock mouse_round timed_out_0)

lemma wait_one_press_loop_step:
  "wait_one_press_loop mx st live pressed w =
     (if pressed = [] then
        if in_time w st mx 0
        then wait_one_press_loop mx st live (keys_seen live w (Suc 0)) (polled (Suc 0) w)
        else Some (pressed, timed_out 0 w)
      else Some (pressed, w))"
  by (subst wait_one_press_loop.simps)
     (simp add: case_prod_unfold fst_master_clock keyboard_round timed_out_0)

lemma wait_one_click_loop_step:
  "wait_one_click_loop mx st live clicked w =
     (if clicked = [] then
        if in_time w st mx 0
        then wait_one_click_loop mx st live (clicks_seen live w (Suc 0)) (polled (Suc 0) w)
        else Some (clicked, timed_out 0 w)
      else Some (clicked, w))"
  by (subst wait_one_click_loop.simps)
     (simp add: case_prod_unfold fst_master_clock mouse_round timed_out_0)

lemma wait_for_presses_loop_rounds:
  "\<forall>i<n. in_time w st mx i \<Longrightarrow> \<not> in_time w st mx n \<Longrightarrow>
   wait_for_presses_loop mx st live pressed w =
     Some (if n = 0 then pressed else keys_seen live w n, timed_out n w)"
proof (induction n arbitrary: w pressed)
  case 0
  then show ?case
    by (subst wait_for_presses_loop_step) simp
next
  case (Suc n)
  from Suc.prems have now: "in_time w st mx 0" by blast
  from Suc.prems have later:
    "\<forall>i<n. in_time (polled (Suc 0) w) st mx i" "\<not> in_time (polled (Suc 0) w) st mx n"
    by (simp_all add: in_time_Suc)
  show ?case
    using now
    by (subst wait_for_presses_loop_step)
       (simp add: Suc.IH [OF later] keys_seen_Suc timed_out_Suc)
qed

lemma wait_for_clicks_loop_rounds:
  "\<forall>i<n. in_time w st mx i \<Longrightarrow> \<not> in_time w st mx n \<Longrightarrow>
   wait_for_clicks_loop mx st live clicked w =
     Some (if n = 0 then clicked else clicks_seen live w n, timed_out n w)"
proof (induction n arbitrary: w clicked)
  case 0
  then show ?case
    by (subst wait_for_clicks_loop_step) simp
next
  case (Suc n)
  from Suc.prems have now: "in_time w st mx 0" by blast
  from Suc.prems have later:
    "\<forall>i<n. in_time (polled (Suc 0) w) st mx i" "\<not> in_time (polled (Suc 0) w) st mx n"
    by (simp_all add: in_time_Suc)
  show ?case
    using now
    by (subst wait_for_clicks_loop_step)
       (simp add: Suc.IH [OF later] clicks_seen_Suc timed_out_Suc)
qed

lemma wait_one_press_loop_timeout:
  "\<forall>i<n. in_time w st mx i \<and> keys_seen live w (Suc i) = [] \<Longrightarrow> \<not> in_time w st mx n \<Longrightarrow>
   wait_one_press_loop mx st live [] w = Some ([], timed_out n w)"
proof (induction n arbitrary: w)
  case 0
  then show ?case
    by (subst wait_one_press_loop_step) simp
next
  case (Suc n)
  from Suc.prems have now: "in_time w st mx 0" "keys_seen live w (Suc 0) = []"
    by blast+
  from Suc.prems have later:
    "\<forall>i<n. in_time (polled (Suc 0) w) st mx i \<and> keys_seen live (polled (Suc 0) w) (Suc i) = []"
    "\<not> in_time (polled (Suc 0) w) st mx n"
    by (simp_all add: in_time_Suc keys_seen_Suc)
  show ?case
    using now
    by (subst wait_one_press_loop_step) (simp add: Suc.IH [OF later] timed_out_Suc)
qed

lemma wait_one_press_loop_found:
  "\<forall>i<n. in_time w st mx i \<and> keys_seen live w (Suc i) = [] \<Longrightarrow> in_time w st mx n \<Longrightarrow>
   keys_seen live w (Suc n) \<noteq> [] \<Longrightarrow>
   wait_one_press_loop mx st live [] w = Some (keys_seen live w (Suc n), polled (Suc n) w)"
proof (induction n arbitrary: w)
  case 0
  have stop: "wait_one_press_loop mx st live (keys_seen live w (Suc 0)) (polled (Suc 0) w) =
      Some (keys_seen live w (Suc 0), polled (Suc 0) w)"
    using "0.prems"(3) by (subst wait_one_press_loop_step) simp
  show ?case
    using "0.prems"(2) by (subst wait_one_press_loop_step) (simp add: stop)
next
  case (Suc n)
  from Suc.prems have now: "in_time w st mx 0" "keys_seen live w (Suc 0) = []"
    by blast+
  from Suc.prems have later:
    "\<forall>i<n. in_time (polled (Suc 0) w) st mx i \<and> keys_seen live (polled (Suc 0) w) (Suc i) = []"
    "in_time (polled (Suc 0) w) st mx n"
    "keys_seen live (polled (Suc 0) w) (Suc n) \<noteq> []"
    by (simp_all add: in_time_Suc keys_seen_Suc)
  show ?case
    using now
    by (subst wait_one_press_loop_step)
       (simp add: Suc.IH [OF later] keys_seen_Suc polled_Suc [of "Suc n"])
qed

lemma wait_one_click_loop_timeout:
  "\<forall>i<n. in_time w st mx i \<and> clicks_seen live w (Suc i) = [] \<Longrightarrow> \<not> in_time w st mx n \<Longrightarrow>
   wait_one_click_loop mx st live [] w = Some ([], timed_out n w)"
proof (induction n arbitrary: w)
  case 0
  then show ?case
    by (subst wait_one_click_loop_step) simp
next
  case (Suc n)
  from Suc.prems have now: "in_time w st mx 0" "clicks_seen live w (Suc 0) = []"
    by blast+
  from Suc.prems have later:
    "\<forall>i<n. in_time (polled (Suc 0) w) st mx i \<and> clicks_seen live (polled (Suc 0) w) (Suc i) = []"
    "\<not> in_time (polled (Suc 0) w) st mx n"
    by (simp_all add: in_time_Suc clicks_seen_Suc)
  show ?case
    using now
    by (subst wait_one_click_loop_step) (simp add: Suc.IH [OF later] timed_out_Suc)
qed

lemma wait_one_click_loop_found:
  "\<forall>i<n. in_time w st mx i \<and> clicks_seen live w (Suc i) = [] \<Longrightarrow> in_time w st mx n \<Longrightarrow>
   clicks_seen live w (Suc n) \<noteq> [] \<Longrightarrow>
   wait_one_click_loop mx st live [] w = Some (clicks_seen live w (Suc n), polled (Suc n) w)"
proof (induction n arbitrary: w)
  case 0
  have stop: "wait_one_click_loop mx st live (clicks_seen live w (Suc 0)) (polled (Suc 0) w) =
      Some (clicks_seen live w (Suc 0), polled (Suc 0) w)"
    using "0.prems"(3) by (subst wait_one_click_loop_step) simp
  show ?case
    using "0.prems"(2) by (subst wait_one_click_loop_step) (simp add: stop)
next
  case (Suc n)
  from Suc.prems have now: "in_time w st mx 0" "clicks_seen live w (Suc 0) = []"
    by blast+
  from Suc.prems have later:
    "\<forall>i<n. in_time (polled (Suc 0) w) st mx i \<and> clicks_seen live (polled (Suc 0) w) (Suc i) = []"
    "in_time (polled (Suc 0) w) st mx n"
    "clicks_seen live (polled (Suc 0) w) (Suc n) \<noteq> []"
    by (simp_all add: in_time_Suc clicks_seen_Suc)
  show ?case
    using now
    by (subst wait_one_click_loop_step)
       (simp add: Suc.IH [OF later] clicks_seen_Suc polled_Suc [of "Suc n"])
qed

lemma wait_one_press_loop_calls:
  assumes "wait_one_press_loop mx st live p w = Some y"
  shows "calls (snd y) = calls w"
  by (rule wait_one_press_loop.raw_induct
        [where P = "\<lambda>mx st live p w y. calls (snd y) = calls w", rotated, OF assms])
     (auto simp add: master_clock_def retrieve_keyboard_events_live split: if_splits prod.splits)

lemma wait_for_presses_loop_calls:
  assumes "wait_for_presses_loop mx st live p w = Some y"
  shows "calls (snd y) = calls w"
  by (rule wait_for_presses_loop.raw_induct
        [where P = "\<lambda>mx st live p w y. calls (snd y) = calls w", rotated, OF assms])
     (auto simp add: master_clock_def retrieve_keyboard_events_live split: if_splits prod.splits)

lemma wait_one_click_loop_calls:
  assumes "wait_one_click_loop mx st live p w = Some y"
  shows "calls (snd y) = calls w"
  by (rule wait_one_click_loop.raw_induct
        [where P = "\<lambda>mx st live p w y. calls (snd y) = calls w", rotated, OF assms])
     (auto simp add: master_clock_def retrieve_mouse_events_live split: if_splits prod.splits)

lemma wait_for_clicks_loop_calls:
  assumes "wait_for_clicks_loop mx st live p w = Some y"
  shows "calls (snd y) = calls w"
  by (rule wait_for_clicks_loop.raw_induct
        [where P = "\<lambda>mx st live p w y. calls (snd y) = calls w", rotated, OF assms])
     (auto simp add: master_clock_def retrieve_mouse_events_live split: if_splits prod.splits)

subsection \<open>Time correction\<close>

text \<open>
  Claim C1. Whenever events were retrieved, the recorder receives them with the corrected
  time \<open>t0 + c\<close>, where \<open>c\<close> is the monitor's time correction; unless a force-quit key
  ends the call, the caller receives the time \<open>t0 + c - r\<close> when a timestamp relative to
  \<open>r\<close> is asked for, and otherwise the bare keys, or the triples of button and position.
\<close>

theorem corrected_time_logged_and_returned:
  "(pressed \<noteq> [] \<longrightarrow>
      calls (snd (correct_presses pressed timestamp relative_to w)) =
        calls w @ [LogPresses (map (\<lambda>(k, t0). (k, t0 + kb_time_correction w)) pressed),
                   CheckForceQuit (KeysList (map fst pressed))]
      \<and> ((\<forall>e\<in>set pressed. fst e \<notin> set (force_quit_keys w)) \<longrightarrow>
           fst (correct_presses pressed True (Some r) w) =
             Inr (map (\<lambda>(k, t0). KeyTime k (t0 + kb_time_correction w - r)) pressed)
           \<and> fst (correct_presses pressed False relative_to w) =
             Inr (map (\<lambda>(k, t0). KeyOnly k) pressed)))
   \<and> (clicked \<noteq> [] \<longrightarrow>
      calls (snd (correct_clicks clicked timestamp relative_to w)) =
        calls w @ [LogClicks (map (\<lambda>(b, x, y, t0). (b, x, y, t0 + ms_time_correction w)) clicked),
                   CheckForceQuit KeysNone]
      \<and> (\<not> quit_pending w \<longrightarrow>
           fst (correct_clicks clicked True (Some r) w) =
             Inr (map (\<lambda>(b, x, y, t0). ClickTime b x y (t0 + ms_time_correction w - r)) clicked)
           \<and> fst (correct_clicks clicked False relative_to w) =
             Inr (map (\<lambda>(b, x, y, t0). ClickOnly b x y) clicked)))"
  by (simp add: correct_presses_eq correct_clicks_eq)

theorem corrected_time_logged_and_returned_witness:
  "[(''a'', 2), (''b'', 4)] \<noteq> []
   \<and> ''a'' \<notin> set (force_quit_keys busy_world)
   \<and> ''b'' \<notin> set (force_quit_keys busy_world)
   \<and> calls (snd (correct_presses [(''a'', 2), (''b'', 4)] True (Some 1) busy_world)) =
       [LogPresses [(''a'', 9 / 4), (''b'', 17 / 4)], CheckForceQuit (KeysList [''a'', ''b''])]
   \<and> fst (correct_presses [(''a'', 2), (''b'', 4)] True (Some 1) busy_world) =
       Inr [KeyTime ''a'' (5 / 4), KeyTime ''b'' (13 / 4)]
   \<and> fst (correct_presses [(''a'', 2), (''b'', 4)] False (Some 1) busy_world) =
       Inr [KeyOnly ''a'', KeyOnly ''b'']
   \<and> [(''left'', 10, 20, 3)] \<noteq> []
   \<and> \<not> quit_pending busy_world
   \<and> calls (snd (correct_clicks [(''left'', 10, 20, 3)] True (Some 1) busy_world)) =
       [LogClicks [(''left'', 10, 20, 7 / 2)], CheckForceQuit KeysNone]
   \<and> fst (correct_clicks [(''left'', 10, 20, 3)] True (Some 1) busy_world) =
       Inr [ClickTime ''left'' 10 20 (5 / 2)]
   \<and> fst (correct_clicks [(''left'', 10, 20, 3)] False (Some 1) busy_world) =
       Inr [ClickOnly ''left'' 10 20]"
  using corrected_time_logged_and_returned
    [of "[(''a'', 2), (''b'', 4)]" True "Some 1" busy_world 1 "[(''left'', 10, 20, 3)]"]
  by (simp add: busy_world_def quit_pending_def)

subsection \<open>Timestamps need a session\<close>

text \<open>
  Claim C5. \<^verbatim>\<open>get_presses\<close> and \<^verbatim>\<open>get_clicks\<close> with a timestamp asked for and no
  \<^verbatim>\<open>relative_to\<close>: when no listen session has started the no-session \<^verbatim>\<open>ValueError\<close> is
  raised and the world is untouched, so that nothing was pumped or retrieved; otherwise
  the call is the one with \<^verbatim>\<open>relative_to\<close> set to the session's \<^verbatim>\<open>listen_start\<close>.
\<close>

theorem timestamp_needs_session:
  "(kb_listen_start w = None \<longrightarrow>
      get_presses live_keys True None w =
        (Inl (ValueError
           ''I cannot timestamp: relative_to is None and you have not yet called listen_presses.''),
         w))
   \<and> (kb_listen_start w = Some t \<longrightarrow>
      get_presses live_keys True None w = get_presses live_keys True (Some t) w)
   \<and> (ms_listen_start w = None \<longrightarrow>
      get_clicks live_buttons True None w =
        (Inl (ValueError
           ''I cannot timestamp: relative_to is None and you have not yet called listen_clicks.''),
         w))
   \<and> (ms_listen_start w = Some t' \<longrightarrow>
      get_clicks live_buttons True None w = get_clicks live_buttons True (Some t') w)"
  by (simp add: get_presses_def get_clicks_def)

theorem timestamp_needs_session_witness:
  "kb_listen_start quiet_world = None
   \<and> get_presses None True None quiet_world =
       (Inl (ValueError
          ''I cannot timestamp: relative_to is None and you have not yet called listen_presses.''),
        quiet_world)
   \<and> ms_listen_start quiet_world = None
   \<and> get_clicks None True None quiet_world =
       (Inl (ValueError
          ''I cannot timestamp: relative_to is None and you have not yet called listen_clicks.''),
        quiet_world)
   \<and> kb_listen_start busy_world = Some 1
   \<and> get_presses None True None busy_world = get_presses None True (Some 1) busy_world
   \<and> ms_listen_start busy_world = Some 1
   \<and> get_clicks None True None busy_world = get_clicks None True (Some 1) busy_world"
proof -
  have quiet: "kb_listen_start quiet_world = None" "ms_listen_start quiet_world = None"
    by (simp_all add: quiet_world_def)
  have busy: "kb_listen_start busy_world = Some 1" "ms_listen_start busy_world = Some 1"
    by (simp_all add: busy_world_def)
  show ?thesis
    using quiet busy
      timestamp_needs_session [of quiet_world None 0 None 0]
      timestamp_needs_session [of busy_world None 1 None 1]
    by simp
qed

subsection \<open>The start of a wait\<close>

lemma init_wait_press_eq:
  "init_wait_press max_wait min_wait live_keys timestamp relative_to w =
     (if isinf max_wait \<and> live_keys = Some [] then
        Some (Inl (ValueError ''max_wait cannot be infinite if there are no live keys.''), w)
      else if \<not> fl_le min_wait max_wait then
        Some (Inl (ValueError ''min_wait must be less than max_wait''), w)
      else if min_wait = PInf then None
      else if quit_pending w then
        Some (Inl (RuntimeError ''Quit key pressed''),
         dispatch_events (w\<lparr>clock_calls := Suc (clock_calls w),
            calls := calls w @ [WaitSecs min_wait, CheckForceQuit KeysNone]\<rparr>))
      else
        Some (Inr (if timestamp \<and> relative_to = None then Some (clock_script w (clock_calls w))
              else relative_to, clock_script w (clock_calls w)),
         (dispatch_events (dispatch_events w))\<lparr>clock_calls := Suc (clock_calls w),
            keyboard_buffer := [],
            calls := calls w @ [WaitSecs min_wait, CheckForceQuit KeysNone, ClearKeyboard]\<rparr>))"
  by (simp add: init_wait_press_def master_clock_def wait_secs_def check_force_quit_none
        clear_keyboard_events_def Let_def dispatch_events_def)

lemma init_wait_click_eq:
  "init_wait_click max_wait min_wait live_buttons timestamp relative_to w =
     (if isinf max_wait \<and> live_buttons = Some [] then
        Some (Inl (ValueError ''max_wait cannot be infinite if there are no live mouse buttons.''), w)
      else if \<not> fl_le min_wait max_wait then
        Some (Inl (ValueError ''min_wait must be less than max_wait''), w)
      else if min_wait = PInf then None
      else if quit_pending w then
        Some (Inl (RuntimeError ''Quit key pressed''),
         dispatch_events (w\<lparr>clock_calls := Suc (clock_calls w),
            calls := calls w @ [WaitSecs min_wait, CheckForceQuit KeysNone]\<rparr>))
      else
        Some (Inr (if timestamp \<and> relative_to = None then Some (clock_script w (clock_calls w))
              else relative_to, clock_script w (clock_calls w)),
         (dispatch_events (dispatch_events w))\<lparr>clock_calls := Suc (clock_calls w),
            mouse_buffer := [],
            calls := calls w @ [WaitSecs min_wait, CheckForceQuit KeysNone, ClearMouse]\<rparr>))"
  by (simp add: init_wait_click_def master_clock_def wait_secs_def check_force_quit_none
        ec_check_force_quit_def clear_mouse_events_def Let_def dispatch_events_def)

lemma fl_lt_not_le: "fl_lt b a \<Longrightarrow> \<not> fl_le a b"
  by (cases a; cases b) simp_all

lemma fl_eq_le: "fl_eq a b \<Longrightarrow> fl_le a b"
  by (cases a; cases b) simp_all

lemma quiet_world_fields [simp]:
  "force_quit_keys quiet_world = [''escape'']"
  "kb_listen_start quiet_world = None"
  "kb_time_correction quiet_world = 0"
  "keyboard_buffer quiet_world = []"
  "ms_listen_start quiet_world = None"
  "ms_time_correction quiet_world = 0"
  "mouse_buffer quiet_world = []"
  "clock_script quiet_world = (\<lambda>n. real n)"
  "clock_calls quiet_world = 0"
  "event_script quiet_world = (\<lambda>n. [])"
  "dispatch_calls quiet_world = 0"
  "calls quiet_world = []"
  by (simp_all add: quiet_world_def)

lemma busy_world_fields [simp]:
  "force_quit_keys busy_world = [''escape'']"
  "kb_listen_start busy_world = Some 1"
  "kb_time_correction busy_world = 1 / 4"
  "keyboard_buffer busy_world = [(''a'', 2)]"
  "ms_listen_start busy_world = Some 1"
  "ms_time_correction busy_world = 1 / 2"
  "mouse_buffer busy_world = [(''left'', 10, 20, 3)]"
  "clock_script busy_world = (\<lambda>n. 4 + real n)"
  "clock_calls busy_world = 0"
  "event_script busy_world =
     (\<lambda>n. if n = 0 then [KeyPress ''b'' 4, MousePress ''right'' 5 6 5] else [])"
  "dispatch_calls busy_world = 0"
  "calls busy_world = []"
  by (simp_all add: busy_world_def)

subsection \<open>Rejected arguments\<close>

text \<open>
  Claim C4. Every wait method of both monitors raises a \<^verbatim>\<open>ValueError\<close> when \<^verbatim>\<open>max_wait\<close> is
  infinite and the filter is the empty list, and when \<^verbatim>\<open>min_wait\<close> is greater than
  \<^verbatim>\<open>max_wait\<close>; the world that comes with the error is the one the call started from, so
  that nothing was waited for, checked or cleared. Equal \<^verbatim>\<open>min_wait\<close> and \<^verbatim>\<open>max_wait\<close> raise
  no \<^verbatim>\<open>ValueError\<close>, unless the first rule applies.
\<close>

theorem wait_rejects_bad_arguments:
  "(isinf max_wait \<and> live_keys = Some [] \<longrightarrow>
      wait_one_press max_wait min_wait live_keys timestamp relative_to w =
        Some (Inl (ValueError ''max_wait cannot be infinite if there are no live keys.''), w)
      \<and> wait_for_presses max_wait min_wait live_keys timestamp relative_to w =
        Some (Inl (ValueError ''max_wait cannot be infinite if there are no live keys.''), w))
   \<and> (isinf max_wait \<and> live_buttons = Some [] \<longrightarrow>
      wait_one_click max_wait min_wait live_buttons timestamp relative_to w =
        Some (Inl (ValueError ''max_wait cannot be infinite if there are no live mouse buttons.''), w)
      \<and> wait_for_clicks max_wait min_wait live_buttons timestamp relative_to w =
        Some (Inl (ValueError ''max_wait cannot be infinite if there are no live mouse buttons.''), w))
   \<and> (fl_lt max_wait min_wait \<and> \<not> (isinf max_wait \<and> live_keys = Some []) \<longrightarrow>
      wait_one_press max_wait min_wait live_keys timestamp relative_to w =
        Some (Inl (ValueError ''min_wait must be less than max_wait''), w)
      \<and> wait_for_presses max_wait min_wait live_keys timestamp relative_to w =
        Some (Inl (ValueError ''min_wait must be less than max_wait''), w))
   \<and> (fl_lt max_wait min_wait \<and> \<not> (isinf max_wait \<and> live_buttons = Some []) \<longrightarrow>
      wait_one_click max_wait min_wait live_buttons timestamp relative_to w =
        Some (Inl (ValueError ''min_wait must be less than max_wait''), w)
      \<and> wait_for_clicks max_wait min_wait live_buttons timestamp relative_to w =
        Some (Inl (ValueError ''min_wait must be less than max_wait''), w))
   \<and> (fl_eq min_wait max_wait \<and> \<not> (isinf max_wait \<and> live_keys = Some []) \<longrightarrow>
      (\<forall>m w'. init_wait_press max_wait min_wait live_keys timestamp relative_to w
              \<noteq> Some (Inl (ValueError m), w')))
   \<and> (fl_eq min_wait max_wait \<and> \<not> (isinf max_wait \<and> live_buttons = Some []) \<longrightarrow>
      (\<forall>m w'. init_wait_click max_wait min_wait live_buttons timestamp relative_to w
              \<noteq> Some (Inl (ValueError m), w')))"
  by (simp add: wait_one_press_def wait_for_presses_def wait_one_click_def wait_for_clicks_def
        init_wait_press_eq init_wait_click_eq fl_lt_not_le fl_eq_le)

theorem wait_rejects_bad_arguments_witness:
  "isinf PInf
   \<and> wait_one_press PInf (Fin 0) (Some []) True None busy_world =
       Some (Inl (ValueError ''max_wait cannot be infinite if there are no live keys.''), busy_world)
   \<and> wait_for_clicks PInf (Fin 0) (Some []) True None busy_world =
       Some (Inl (ValueError ''max_wait cannot be infinite if there are no live mouse buttons.''),
             busy_world)
   \<and> fl_lt (Fin 1) (Fin 2)
   \<and> wait_for_presses (Fin 1) (Fin 2) None False None busy_world =
       Some (Inl (ValueError ''min_wait must be less than max_wait''), busy_world)
   \<and> wait_one_click (Fin 1) (Fin 2) (Some []) False None busy_world =
       Some (Inl (ValueError ''min_wait must be less than max_wait''), busy_world)
   \<and> fl_eq (Fin 2) (Fin 2)
   \<and> map_option fst (init_wait_press (Fin 2) (Fin 2) (Some []) False None busy_world) =
       Some (Inr (None, 4))
   \<and> map_option fst (init_wait_click (Fin 2) (Fin 2) (Some []) False None busy_world) =
       Some (Inr (None, 4))"
proof -
  have ok: "map_option fst (init_wait_press (Fin 2) (Fin 2) (Some []) False None busy_world) =
      Some (Inr (None, 4))"
    "map_option fst (init_wait_click (Fin 2) (Fin 2) (Some []) False None busy_world) =
      Some (Inr (None, 4))"
    by (simp_all add: init_wait_press_eq init_wait_click_eq quit_pending_def)
  show ?thesis
    using ok
      wait_rejects_bad_arguments [of PInf "Some []" "Fin 0" True None busy_world "Some []"]
      wait_rejects_bad_arguments [of "Fin 1" None "Fin 2" False None busy_world "Some []"]
      wait_rejects_bad_arguments [of "Fin 2" "Some []" "Fin 2" False None busy_world "Some []"]
    by simp
qed

subsection \<open>The force-quit check\<close>

text \<open>
  Claim C6. \<^verbatim>\<open>check_force_quit\<close> without keys retrieves the buffered events of the
  force-quit keys alone; a string counts as the list of that one string; of a list the keys
  in the force-quit set are kept; \<^verbatim>\<open>RuntimeError\<close> is raised when what is left is not
  empty, and otherwise the call with a string or a list changes nothing but the trace; any
  other argument raises \<^verbatim>\<open>TypeError\<close>.
\<close>

theorem check_force_quit_cases:
  "fst (retrieve_keyboard_events (Some []) w) =
     filter (\<lambda>e. fst e \<in> set (force_quit_keys w)) (keyboard_buffer (dispatch_events w))
   \<and> fst (check_force_quit KeysNone w) =
       (if fst (retrieve_keyboard_events (Some []) w) \<noteq> []
        then Inl (RuntimeError ''Quit key pressed'') else Inr ())
   \<and> fst (check_force_quit (KeysStr s) w) = fst (check_force_quit (KeysList [s]) w)
   \<and> fst (check_force_quit (KeysList ks) w) =
       (if filter (\<lambda>k. k \<in> set (force_quit_keys w)) ks \<noteq> []
        then Inl (RuntimeError ''Quit key pressed'') else Inr ())
   \<and> snd (check_force_quit (KeysStr s) w) = w\<lparr>calls := calls w @ [CheckForceQuit (KeysStr s)]\<rparr>
   \<and> snd (check_force_quit (KeysList ks) w) = w\<lparr>calls := calls w @ [CheckForceQuit (KeysList ks)]\<rparr>
   \<and> fst (check_force_quit KeysOther w) =
       Inl (TypeError ''Force quit checking requires a string or  list of strings'')"
  by (simp add: check_force_quit_def retrieve_keyboard_events_def Let_def case_prod_unfold)

theorem check_force_quit_cases_witness:
  "fst (check_force_quit (KeysStr ''escape'') quiet_world) = Inl (RuntimeError ''Quit key pressed'')
   \<and> fst (check_force_quit (KeysStr ''x'') quiet_world) = Inr ()
   \<and> snd (check_force_quit (KeysStr ''x'') quiet_world) =
       quiet_world\<lparr>calls := [CheckForceQuit (KeysStr ''x'')]\<rparr>
   \<and> fst (check_force_quit (KeysList [''x'', ''escape'']) quiet_world) =
       Inl (RuntimeError ''Quit key pressed'')
   \<and> fst (check_force_quit KeysNone busy_world) = Inr ()
   \<and> fst (check_force_quit KeysNone (busy_world\<lparr>keyboard_buffer := [(''escape'', 1)]\<rparr>)) =
       Inl (RuntimeError ''Quit key pressed'')"
  using check_force_quit_cases [of quiet_world "''escape''" "[''x'', ''escape'']"]
    check_force_quit_cases [of quiet_world "''escape''" "[''escape'']"]
    check_force_quit_cases [of quiet_world "''x''" "[''x'']"]
    check_force_quit_cases [of busy_world "''x''" "[]"]
    check_force_quit_cases [of "busy_world\<lparr>keyboard_buffer := [(''escape'', 1)]\<rparr>" "''x''" "[]"]
  by simp

subsection \<open>Filters\<close>

text \<open>
  Claim C7. The keyboard matches buffered events against the filter extended with the
  force-quit keys, so that a buffered force-quit key is retrieved whatever the filter, also
  the empty one; without a filter every buffered event is retrieved. The mouse matches
  against its filter as it is. Whether a mouse call raises the force-quit error depends on
  the keyboard buffer and the force-quit keys alone, never on a button.
\<close>

theorem keyboard_filter_augmented_mouse_not:
  "fst (retrieve_keyboard_events (Some ks) w) =
     filter (\<lambda>e. fst e \<in> set (map py_str ks @ force_quit_keys w))
       (keyboard_buffer (dispatch_events w))
   \<and> fst (retrieve_keyboard_events None w) = keyboard_buffer (dispatch_events w)
   \<and> (\<forall>e\<in>set (keyboard_buffer (dispatch_events w)).
        fst e \<in> set (force_quit_keys w) \<longrightarrow>
          e \<in> set (fst (retrieve_keyboard_events (Some ks) w))
          \<and> e \<in> set (fst (retrieve_keyboard_events (Some []) w)))
   \<and> fst (retrieve_mouse_events (Some bs) w) =
       filter (\<lambda>e. fst e \<in> set bs) (mouse_buffer (dispatch_events w))
   \<and> fst (retrieve_mouse_events None w) = mouse_buffer (dispatch_events w)
   \<and> fst (retrieve_mouse_events (Some []) w) = []
   \<and> (clicked \<noteq> [] \<longrightarrow>
        (fst (correct_clicks clicked timestamp relative_to w) =
           Inl (RuntimeError ''Quit key pressed'')) = quit_pending w)
   \<and> (\<not> (isinf max_wait \<and> live_buttons = Some []) \<and> fl_le min_wait max_wait
       \<and> min_wait \<noteq> PInf \<longrightarrow>
        (map_option fst (init_wait_click max_wait min_wait live_buttons timestamp relative_to w) =
           Some (Inl (RuntimeError ''Quit key pressed''))) = quit_pending w)"
  by (auto simp add: retrieve_keyboard_events_def retrieve_mouse_events_def Let_def
        correct_clicks_eq init_wait_click_eq split: option.splits)

theorem keyboard_filter_augmented_mouse_not_witness:
  "fst (retrieve_keyboard_events (Some [KStr ''b''])
          (busy_world\<lparr>keyboard_buffer := [(''escape'', 2)]\<rparr>)) = [(''escape'', 2), (''b'', 4)]
   \<and> (''escape'', 2) \<in> set (keyboard_buffer
          (dispatch_events (busy_world\<lparr>keyboard_buffer := [(''escape'', 2)]\<rparr>)))
   \<and> (''escape'', 2) \<in> set (fst (retrieve_keyboard_events (Some [])
          (busy_world\<lparr>keyboard_buffer := [(''escape'', 2)]\<rparr>)))
   \<and> fst (retrieve_keyboard_events None (busy_world\<lparr>keyboard_buffer := [(''escape'', 2)]\<rparr>)) =
       [(''escape'', 2), (''b'', 4)]
   \<and> fst (retrieve_mouse_events (Some [''right''])
          (busy_world\<lparr>keyboard_buffer := [(''escape'', 2)]\<rparr>)) = [(''right'', 5, 6, 5)]
   \<and> fst (retrieve_mouse_events None (busy_world\<lparr>keyboard_buffer := [(''escape'', 2)]\<rparr>)) =
       [(''left'', 10, 20, 3), (''right'', 5, 6, 5)]
   \<and> [(''left'', 10, 20, 3 :: real)] \<noteq> []
   \<and> quit_pending (busy_world\<lparr>keyboard_buffer := [(''escape'', 2)]\<rparr>)
   \<and> fst (correct_clicks [(''left'', 10, 20, 3)] False None
          (busy_world\<lparr>keyboard_buffer := [(''escape'', 2)]\<rparr>)) =
       Inl (RuntimeError ''Quit key pressed'')
   \<and> fl_le (Fin 0) (Fin 2)
   \<and> map_option fst (init_wait_click (Fin 2) (Fin 0) None False None
          (busy_world\<lparr>keyboard_buffer := [(''escape'', 2)]\<rparr>)) =
       Some (Inl (RuntimeError ''Quit key pressed''))"
proof -
  let ?w = "busy_world\<lparr>keyboard_buffer := [(''escape'', 2)]\<rparr>"
  have pending: "quit_pending ?w"
    by (simp add: quit_pending_def)
  have there: "(''escape'', 2) \<in> set (keyboard_buffer (dispatch_events ?w))"
    by simp
  show ?thesis
    using pending there
      keyboard_filter_augmented_mouse_not
        [where ks = "[KStr ''b'']" and w = ?w and bs = "[''right'']"
           and clicked = "[(''left'', 10, 20, 3)]" and timestamp = False
           and relative_to = None and max_wait = "Fin 2" and min_wait = "Fin 0"
           and live_buttons = None]
    by simp
qed

subsection \<open>Retrieval without a timestamp\<close>

text \<open>
  Claim C10. Without a timestamp \<^verbatim>\<open>get_presses\<close> and \<^verbatim>\<open>get_clicks\<close> never raise a
  \<^verbatim>\<open>ValueError\<close>, whether a session has started or not, and \<^verbatim>\<open>relative_to\<close> makes no
  difference; unless a force-quit key is pending, the retrieved events come back without
  their times, the whole buffer when there is no filter.
\<close>

theorem no_timestamp_no_session_error:
  "get_presses live_keys False None w = get_presses live_keys False relative_to w
   \<and> (\<forall>m. fst (get_presses live_keys False relative_to w) \<noteq> Inl (ValueError m))
   \<and> (\<not> quit_pending w \<longrightarrow>
        fst (get_presses live_keys False relative_to w) =
          Inr (map (\<lambda>(k, t0). KeyOnly k)
                 (filter (key_live live_keys w) (keyboard_buffer (dispatch_events w))))
        \<and> fst (get_presses None False relative_to w) =
          Inr (map (\<lambda>(k, t0). KeyOnly k) (keyboard_buffer (dispatch_events w))))
   \<and> get_clicks live_buttons False None w = get_clicks live_buttons False relative_to w
   \<and> (\<forall>m. fst (get_clicks live_buttons False relative_to w) \<noteq> Inl (ValueError m))
   \<and> (\<not> quit_pending (dispatch_events w) \<longrightarrow>
        fst (get_clicks live_buttons False relative_to w) =
          Inr (map (\<lambda>(b, x, y, t0). ClickOnly b x y)
                 (filter (button_live live_buttons) (mouse_buffer (dispatch_events w))))
        \<and> fst (get_clicks None False relative_to w) =
          Inr (map (\<lambda>(b, x, y, t0). ClickOnly b x y) (mouse_buffer (dispatch_events w))))"
proof -
  have none: "key_live None w = (\<lambda>e. True)" "button_live None = (\<lambda>e. True)"
    by (simp_all add: key_live_def button_live_def)
  have quiet: "\<not> quit_pending w \<Longrightarrow>
      \<forall>e\<in>set (filter (key_live lk w) (keyboard_buffer (dispatch_events w))).
        fst e \<notin> set (force_quit_keys w)" for lk
    by (auto simp add: quit_pending_def)
  show ?thesis
    using quiet [of live_keys] quiet [of None]
    by (simp add: get_presses_def get_clicks_def retrieve_keyboard_events_live
          retrieve_mouse_events_live correct_presses_eq correct_clicks_eq none)
qed

theorem no_timestamp_no_session_error_witness:
  "\<not> quit_pending (busy_world\<lparr>kb_listen_start := None, ms_listen_start := None\<rparr>)
   \<and> fst (get_presses (Some [KStr ''b'']) False (Some 7)
            (busy_world\<lparr>kb_listen_start := None, ms_listen_start := None\<rparr>)) = Inr [KeyOnly ''b'']
   \<and> fst (get_presses None False (Some 7)
            (busy_world\<lparr>kb_listen_start := None, ms_listen_start := None\<rparr>)) =
       Inr [KeyOnly ''a'', KeyOnly ''b'']
   \<and> \<not> quit_pending (dispatch_events (busy_world\<lparr>kb_listen_start := None, ms_listen_start := None\<rparr>))
   \<and> fst (get_clicks (Some [''right'']) False (Some 7)
            (busy_world\<lparr>kb_listen_start := None, ms_listen_start := None\<rparr>)) =
       Inr [ClickOnly ''right'' 5 6]
   \<and> fst (get_clicks None False (Some 7)
            (busy_world\<lparr>kb_listen_start := None, ms_listen_start := None\<rparr>)) =
       Inr [ClickOnly ''left'' 10 20, ClickOnly ''right'' 5 6]"
proof -
  let ?w = "busy_world\<lparr>kb_listen_start := None, ms_listen_start := None\<rparr>"
  have calm: "\<not> quit_pending ?w" "\<not> quit_pending (dispatch_events ?w)"
    by (simp_all add: quit_pending_def)
  show ?thesis
    using calm no_timestamp_no_session_error [where live_keys = "Some [KStr ''b'']" and relative_to = "Some 7" and w = ?w
        and live_buttons = "Some [''right'']"]
    by (simp add: key_live_def button_live_def)
qed

subsection \<open>The waits\<close>

lemma timed_out_fields:
  "force_quit_keys (timed_out n w) = force_quit_keys w"
  "kb_time_correction (timed_out n w) = kb_time_correction w"
  "ms_time_correction (timed_out n w) = ms_time_correction w"
  "dispatch_calls (timed_out n w) = dispatch_calls w + n"
  "clock_calls (timed_out n w) = Suc (clock_calls w + n)"
  "calls (timed_out n w) = calls w"
  by (simp_all add: timed_out_def polled_fields)

lemma init_wait_press_Inr:
  assumes "init_wait_press max_wait min_wait live_keys timestamp relative_to w =
             Some (Inr (rel1, start_time), w0)"
  shows "keyboard_buffer w0 = []"
    and "force_quit_keys w0 = force_quit_keys w"
    and "kb_time_correction w0 = kb_time_correction w"
    and "rel1 = (if timestamp \<and> relative_to = None then Some start_time else relative_to)"
    and "calls w0 = calls w @ [WaitSecs min_wait, CheckForceQuit KeysNone, ClearKeyboard]"
    and "\<not> quit_pending w"
  using assms by (auto simp add: init_wait_press_eq split: if_splits)

lemma init_wait_click_Inr:
  assumes "init_wait_click max_wait min_wait live_buttons timestamp relative_to w =
             Some (Inr (rel1, start_time), w0)"
  shows "mouse_buffer w0 = []"
    and "force_quit_keys w0 = force_quit_keys w"
    and "ms_time_correction w0 = ms_time_correction w"
    and "rel1 = (if timestamp \<and> relative_to = None then Some start_time else relative_to)"
    and "calls w0 = calls w @ [WaitSecs min_wait, CheckForceQuit KeysNone, ClearMouse]"
    and "\<not> quit_pending w"
  using assms by (auto simp add: init_wait_click_eq split: if_splits)

lemma keys_seen_settled:
  "keyboard_buffer w0 = [] \<Longrightarrow>
   keys_seen live w0 n = filter (key_live live w0) (key_events (arrived w0 n))"
  by (simp add: keys_seen_def polled_fields)

lemma clicks_seen_settled:
  "mouse_buffer w0 = [] \<Longrightarrow>
   clicks_seen live w0 n = filter (button_live live) (click_events (arrived w0 n))"
  by (simp add: clicks_seen_def polled_fields)

lemma key_live_cong: "force_quit_keys w' = force_quit_keys w \<Longrightarrow> key_live live w' = key_live live w"
  by (cases live; simp add: key_live_def)

lemma wait_for_presses_rounds:
  assumes init: "init_wait_press max_wait min_wait live_keys timestamp relative_to w =
             Some (Inr (rel1, start_time), w0)"
    and rounds: "\<forall>i<n. in_time w0 start_time max_wait i" "\<not> in_time w0 start_time max_wait n"
  shows "wait_for_presses max_wait min_wait live_keys timestamp relative_to w =
           Some (correct_presses (keys_seen live_keys w0 n) timestamp rel1 (timed_out n w0))"
proof -
  have "keys_seen live_keys w0 0 = []"
    using init_wait_press_Inr(1) [OF init] by (simp add: keys_seen_def)
  then have "wait_for_presses_loop max_wait start_time live_keys [] w0 =
      Some (keys_seen live_keys w0 n, timed_out n w0)"
    using wait_for_presses_loop_rounds [OF rounds, of live_keys "[]"] by (cases n) simp_all
  then show ?thesis
    by (simp add: wait_for_presses_def init)
qed

lemma wait_for_clicks_rounds:
  assumes init: "init_wait_click max_wait min_wait live_buttons timestamp relative_to w =
             Some (Inr (rel1, start_time), w0)"
    and rounds: "\<forall>i<n. in_time w0 start_time max_wait i" "\<not> in_time w0 start_time max_wait n"
  shows "wait_for_clicks max_wait min_wait live_buttons timestamp relative_to w =
           Some (correct_clicks (clicks_seen live_buttons w0 n) timestamp rel1 (timed_out n w0))"
proof -
  have "clicks_seen live_buttons w0 0 = []"
    using init_wait_click_Inr(1) [OF init] by (simp add: clicks_seen_def)
  then have "wait_for_clicks_loop max_wait start_time live_buttons [] w0 =
      Some (clicks_seen live_buttons w0 n, timed_out n w0)"
    using wait_for_clicks_loop_rounds [OF rounds, of live_buttons "[]"] by (cases n) simp_all
  then show ?thesis
    by (simp add: wait_for_clicks_def init)
qed

lemma press_out_map:
  "map (\<lambda>(k, t0). if ts then KeyTime k (t0 + c - r) else KeyOnly k) xs =
     (if ts then map (\<lambda>(k, t0). KeyTime k (t0 + c - r)) xs else map (\<lambda>(k, t0). KeyOnly k) xs)"
  by simp

lemma click_out_map:
  "map (\<lambda>(b, x, y, t0). if ts then ClickTime b x y (t0 + c - r) else ClickOnly b x y) xs =
     (if ts then map (\<lambda>(b, x, y, t0). ClickTime b x y (t0 + c - r)) xs
      else map (\<lambda>(b, x, y, t0). ClickOnly b x y) xs)"
  by simp

lemma wait_for_presses_result:
  assumes init: "init_wait_press max_wait min_wait live_keys timestamp relative_to w =
             Some (Inr (rel1, start_time), w0)"
    and rounds: "\<forall>i<n. in_time w0 start_time max_wait i" "\<not> in_time w0 start_time max_wait n"
    and calm: "\<forall>e\<in>set (keys_seen live_keys w0 n). fst e \<notin> set (force_quit_keys w)"
  shows "map_option fst (wait_for_presses max_wait min_wait live_keys timestamp relative_to w) =
           Some (Inr (map (\<lambda>(k, t0).
              if timestamp
              then KeyTime k (t0 + kb_time_correction w -
                     (case relative_to of None \<Rightarrow> start_time | Some r \<Rightarrow> r))
              else KeyOnly k) (keys_seen live_keys w0 n)))"
  using calm
  unfolding wait_for_presses_rounds [OF init rounds] press_out_map
  by (cases relative_to)
     (simp_all add: correct_presses_eq timed_out_fields init_wait_press_Inr [OF init])

lemma wait_for_clicks_result:
  assumes init: "init_wait_click max_wait min_wait live_buttons timestamp relative_to w =
             Some (Inr (rel1, start_time), w0)"
    and rounds: "\<forall>i<n. in_time w0 start_time max_wait i" "\<not> in_time w0 start_time max_wait n"
    and calm: "\<not> quit_pending (timed_out n w0)"
  shows "map_option fst (wait_for_clicks max_wait min_wait live_buttons timestamp relative_to w) =
           Some (Inr (map (\<lambda>(b, x, y, t0).
              if timestamp
              then ClickTime b x y (t0 + ms_time_correction w -
                     (case relative_to of None \<Rightarrow> start_time | Some r \<Rightarrow> r))
              else ClickOnly b x y) (clicks_seen live_buttons w0 n)))"
  using calm
  unfolding wait_for_clicks_rounds [OF init rounds] click_out_map
  by (cases relative_to)
     (simp_all add: correct_clicks_eq timed_out_fields init_wait_click_Inr [OF init])


lemma wait_one_press_timeout:
  assumes init: "init_wait_press max_wait min_wait live_keys timestamp relative_to w =
             Some (Inr (rel1, start_time), w0)"
    and rounds: "\<forall>i<n. in_time w0 start_time max_wait i \<and> keys_seen live_keys w0 (Suc i) = []"
      "\<not> in_time w0 start_time max_wait n"
  shows "wait_one_press max_wait min_wait live_keys timestamp relative_to w =
           Some (Inr (if timestamp then NoneNone else PyNone), timed_out n w0)"
  by (simp add: wait_one_press_def init wait_one_press_loop_timeout [OF rounds])

lemma wait_one_click_timeout:
  assumes init: "init_wait_click max_wait min_wait live_buttons timestamp relative_to w =
             Some (Inr (rel1, start_time), w0)"
    and rounds: "\<forall>i<n. in_time w0 start_time max_wait i \<and> clicks_seen live_buttons w0 (Suc i) = []"
      "\<not> in_time w0 start_time max_wait n"
  shows "wait_one_click max_wait min_wait live_buttons timestamp relative_to w =
           Some (Inr (if timestamp then NoneNone else PyNone), timed_out n w0)"
  by (simp add: wait_one_click_def init wait_one_click_loop_timeout [OF rounds])

lemma wait_one_press_found:
  assumes init: "init_wait_press max_wait min_wait live_keys timestamp relative_to w =
             Some (Inr (rel1, start_time), w0)"
    and rounds: "\<forall>i<n. in_time w0 start_time max_wait i \<and> keys_seen live_keys w0 (Suc i) = []"
      "in_time w0 start_time max_wait n"
    and seen: "keys_seen live_keys w0 (Suc n) = (k, t0) # rest"
    and calm: "\<forall>e\<in>set ((k, t0) # rest). fst e \<notin> set (force_quit_keys w)"
  shows "map_option fst (wait_one_press max_wait min_wait live_keys timestamp relative_to w) =
           Some (Inr (One (if timestamp
              then KeyTime k (t0 + kb_time_correction w -
                     (case relative_to of None \<Rightarrow> start_time | Some r \<Rightarrow> r))
              else KeyOnly k)))"
proof -
  have ne: "keys_seen live_keys w0 (Suc n) \<noteq> []"
    by (simp add: seen)
  have loop: "wait_one_press_loop max_wait start_time live_keys [] w0 =
      Some ((k, t0) # rest, polled (Suc n) w0)"
    using wait_one_press_loop_found [OF rounds ne] by (simp add: seen)
  have "\<exists>ps w2. correct_presses ((k, t0) # rest) timestamp rel1 (polled (Suc n) w0) =
      (Inr ((if timestamp
              then KeyTime k (t0 + kb_time_correction w -
                     (case relative_to of None \<Rightarrow> start_time | Some r \<Rightarrow> r))
              else KeyOnly k) # ps), w2)"
    using calm
    by (cases relative_to)
       (simp_all add: correct_presses_eq polled_fields init_wait_press_Inr [OF init])
  then obtain ps w2 where corrected:
    "correct_presses ((k, t0) # rest) timestamp rel1 (polled (Suc n) w0) =
      (Inr ((if timestamp
              then KeyTime k (t0 + kb_time_correction w -
                     (case relative_to of None \<Rightarrow> start_time | Some r \<Rightarrow> r))
              else KeyOnly k) # ps), w2)"
    by blast
  show ?thesis
    by (simp add: wait_one_press_def init loop corrected)
qed

lemma wait_one_click_found:
  assumes init: "init_wait_click max_wait min_wait live_buttons timestamp relative_to w =
             Some (Inr (rel1, start_time), w0)"
    and rounds: "\<forall>i<n. in_time w0 start_time max_wait i \<and> clicks_seen live_buttons w0 (Suc i) = []"
      "in_time w0 start_time max_wait n"
    and seen: "clicks_seen live_buttons w0 (Suc n) = (b, x, y, t0) # rest"
    and calm: "\<not> quit_pending (polled (Suc n) w0)"
  shows "map_option fst (wait_one_click max_wait min_wait live_buttons timestamp relative_to w) =
           Some (Inr (One (if timestamp
              then ClickTime b x y (t0 + ms_time_correction w -
                     (case relative_to of None \<Rightarrow> start_time | Some r \<Rightarrow> r))
              else ClickOnly b x y)))"
proof -
  have ne: "clicks_seen live_buttons w0 (Suc n) \<noteq> []"
    by (simp add: seen)
  have loop: "wait_one_click_loop max_wait start_time live_buttons [] w0 =
      Some ((b, x, y, t0) # rest, polled (Suc n) w0)"
    using wait_one_click_loop_found [OF rounds ne] by (simp add: seen)
  have "\<exists>cs w2. correct_clicks ((b, x, y, t0) # rest) timestamp rel1 (polled (Suc n) w0) =
      (Inr ((if timestamp
              then ClickTime b x y (t0 + ms_time_correction w -
                     (case relative_to of None \<Rightarrow> start_time | Some r \<Rightarrow> r))
              else ClickOnly b x y) # cs), w2)"
    using calm
    by (cases relative_to)
       (simp_all add: correct_clicks_eq polled_fields init_wait_click_Inr [OF init])
  then obtain cs w2 where corrected:
    "correct_clicks ((b, x, y, t0) # rest) timestamp rel1 (polled (Suc n) w0) =
      (Inr ((if timestamp
              then ClickTime b x y (t0 + ms_time_correction w -
                     (case relative_to of None \<Rightarrow> start_time | Some r \<Rightarrow> r))
              else ClickOnly b x y) # cs), w2)"
    by blast
  show ?thesis
    by (simp add: wait_one_click_def init loop corrected)
qed

lemma typing_init_press:
  "init_wait_press mx (Fin 0) live ts None typing_world =
     (if isinf mx \<and> live = Some [] then
        Some (Inl (ValueError ''max_wait cannot be infinite if there are no live keys.''),
              typing_world)
      else if \<not> fl_le (Fin 0) mx then
        Some (Inl (ValueError ''min_wait must be less than max_wait''), typing_world)
      else Some (Inr (if ts then Some 0 else None, 0), keys_settled))"
  by (simp add: init_wait_press_eq quit_pending_def typing_world_def keys_settled_def
        dispatch_events_def Let_def)

lemma typing_init_click:
  "init_wait_click mx (Fin 0) live ts None typing_world =
     (if isinf mx \<and> live = Some [] then
        Some (Inl (ValueError ''max_wait cannot be infinite if there are no live mouse buttons.''),
              typing_world)
      else if \<not> fl_le (Fin 0) mx then
        Some (Inl (ValueError ''min_wait must be less than max_wait''), typing_world)
      else Some (Inr (if ts then Some 0 else None, 0), clicks_settled))"
  by (simp add: init_wait_click_eq quit_pending_def typing_world_def clicks_settled_def
        dispatch_events_def Let_def)

lemma settled_in_time:
  "in_time keys_settled 0 (Fin m) i = (1 + real i < m)"
  "in_time clicks_settled 0 (Fin m) i = (1 + real i < m)"
  by (simp_all add: in_time_def keys_settled_def clicks_settled_def typing_world_def)

lemma settled_arrived:
  "arrived keys_settled (Suc 0) = []"
  "arrived keys_settled (Suc (Suc 0)) =
     [KeyPress ''a'' 2, MousePress ''left'' 3 4 2, KeyPress ''b'' (5 / 2)]"
  "arrived clicks_settled (Suc 0) = []"
  "arrived clicks_settled (Suc (Suc 0)) =
     [KeyPress ''a'' 2, MousePress ''left'' 3 4 2, KeyPress ''b'' (5 / 2)]"
  by (simp_all add: arrived_def keys_settled_def clicks_settled_def typing_world_def)

lemma settled_seen:
  "keys_seen None keys_settled (Suc 0) = []"
  "keys_seen None keys_settled (Suc (Suc 0)) = [(''a'', 2), (''b'', 5 / 2)]"
  "clicks_seen None clicks_settled (Suc 0) = []"
  "clicks_seen None clicks_settled (Suc (Suc 0)) = [(''left'', 3, 4, 2)]"
  by (simp_all add: keys_seen_def clicks_seen_def polled_fields settled_arrived
        key_live_def button_live_def)
     (simp_all add: keys_settled_def clicks_settled_def typing_world_def)

text \<open>
  Claim C8. \<^verbatim>\<open>wait_one_press\<close> and \<^verbatim>\<open>wait_one_click\<close>, once the wait has started: when
  \<open>n\<close> rounds retrieve nothing and the next clock reading is no longer within \<^verbatim>\<open>max_wait\<close>
  of the start, the result is \<^verbatim>\<open>(None, None)\<close> with a timestamp and \<^verbatim>\<open>None\<close> without;
  when the round after them is still in time and retrieves something, the result is the
  first event retrieved, which is the earliest in the buffer, with the time
  \<open>t0 + c - r\<close> when a timestamp is asked for (\<open>r\<close> is the start of the wait when
  \<^verbatim>\<open>relative_to\<close> is unset) and without the time otherwise: the key alone, or the button
  with its position. A pending force-quit key is left to the claims about force-quit.
\<close>

theorem wait_one_returns_first:
  "(init_wait_press max_wait min_wait live_keys timestamp relative_to w =
       Some (Inr (rel1, start_time), w0)
    \<and> (\<forall>i<n. in_time w0 start_time max_wait i \<and> keys_seen live_keys w0 (Suc i) = []) \<longrightarrow>
      (\<not> in_time w0 start_time max_wait n \<longrightarrow>
         wait_one_press max_wait min_wait live_keys timestamp relative_to w =
           Some (Inr (if timestamp then NoneNone else PyNone), timed_out n w0))
      \<and> (in_time w0 start_time max_wait n
          \<and> keys_seen live_keys w0 (Suc n) = (k, t0) # rest
          \<and> (\<forall>e\<in>set ((k, t0) # rest). fst e \<notin> set (force_quit_keys w)) \<longrightarrow>
         map_option fst (wait_one_press max_wait min_wait live_keys timestamp relative_to w) =
           Some (Inr (One (if timestamp
              then KeyTime k (t0 + kb_time_correction w -
                     (case relative_to of None \<Rightarrow> start_time | Some r \<Rightarrow> r))
              else KeyOnly k)))))
   \<and> (init_wait_click max_wait min_wait live_buttons timestamp relative_to w =
       Some (Inr (rel2, start_time), w1)
    \<and> (\<forall>i<n. in_time w1 start_time max_wait i \<and> clicks_seen live_buttons w1 (Suc i) = []) \<longrightarrow>
      (\<not> in_time w1 start_time max_wait n \<longrightarrow>
         wait_one_click max_wait min_wait live_buttons timestamp relative_to w =
           Some (Inr (if timestamp then NoneNone else PyNone), timed_out n w1))
      \<and> (in_time w1 start_time max_wait n
          \<and> clicks_seen live_buttons w1 (Suc n) = (b, x, y, t1) # rest1
          \<and> \<not> quit_pending (polled (Suc n) w1) \<longrightarrow>
         map_option fst (wait_one_click max_wait min_wait live_buttons timestamp relative_to w) =
           Some (Inr (One (if timestamp
              then ClickTime b x y (t1 + ms_time_correction w -
                     (case relative_to of None \<Rightarrow> start_time | Some r \<Rightarrow> r))
              else ClickOnly b x y)))))"
proof (intro conjI impI; (elim conjE)?)
  assume init: "init_wait_press max_wait min_wait live_keys timestamp relative_to w =
       Some (Inr (rel1, start_time), w0)"
    and quiet: "\<forall>i<n. in_time w0 start_time max_wait i \<and> keys_seen live_keys w0 (Suc i) = []"
  show "wait_one_press max_wait min_wait live_keys timestamp relative_to w =
      Some (Inr (if timestamp then NoneNone else PyNone), timed_out n w0)"
    if "\<not> in_time w0 start_time max_wait n"
    by (rule wait_one_press_timeout [OF init quiet that])
  show "map_option fst (wait_one_press max_wait min_wait live_keys timestamp relative_to w) =
      Some (Inr (One (if timestamp
         then KeyTime k (t0 + kb_time_correction w -
                (case relative_to of None \<Rightarrow> start_time | Some r \<Rightarrow> r))
         else KeyOnly k)))"
    if "in_time w0 start_time max_wait n" "keys_seen live_keys w0 (Suc n) = (k, t0) # rest"
      "\<forall>e\<in>set ((k, t0) # rest). fst e \<notin> set (force_quit_keys w)"
    by (rule wait_one_press_found [OF init quiet that])
next
  assume init: "init_wait_click max_wait min_wait live_buttons timestamp relative_to w =
       Some (Inr (rel2, start_time), w1)"
    and quiet: "\<forall>i<n. in_time w1 start_time max_wait i \<and> clicks_seen live_buttons w1 (Suc i) = []"
  show "wait_one_click max_wait min_wait live_buttons timestamp relative_to w =
      Some (Inr (if timestamp then NoneNone else PyNone), timed_out n w1)"
    if "\<not> in_time w1 start_time max_wait n"
    by (rule wait_one_click_timeout [OF init quiet that])
  show "map_option fst (wait_one_click max_wait min_wait live_buttons timestamp relative_to w) =
      Some (Inr (One (if timestamp
         then ClickTime b x y (t1 + ms_time_correction w -
                (case relative_to of None \<Rightarrow> start_time | Some r \<Rightarrow> r))
         else ClickOnly b x y)))"
    if "in_time w1 start_time max_wait n"
      "clicks_seen live_buttons w1 (Suc n) = (b, x, y, t1) # rest1"
      "\<not> quit_pending (polled (Suc n) w1)"
    by (rule wait_one_click_found [OF init quiet that])
qed

theorem wait_one_returns_first_witness:
  "init_wait_press (Fin 10) (Fin 0) None True None typing_world = Some (Inr (Some 0, 0), keys_settled)
   \<and> in_time keys_settled 0 (Fin 10) 0 \<and> keys_seen None keys_settled (Suc 0) = []
   \<and> in_time keys_settled 0 (Fin 10) (Suc 0)
   \<and> keys_seen None keys_settled (Suc (Suc 0)) = [(''a'', 2), (''b'', 5 / 2)]
   \<and> ''a'' \<notin> set (force_quit_keys typing_world) \<and> ''b'' \<notin> set (force_quit_keys typing_world)
   \<and> map_option fst (wait_one_press (Fin 10) (Fin 0) None True None typing_world) =
       Some (Inr (One (KeyTime ''a'' (9 / 4))))
   \<and> init_wait_click (Fin 10) (Fin 0) None True None typing_world = Some (Inr (Some 0, 0), clicks_settled)
   \<and> in_time clicks_settled 0 (Fin 10) 0 \<and> clicks_seen None clicks_settled (Suc 0) = []
   \<and> in_time clicks_settled 0 (Fin 10) (Suc 0)
   \<and> clicks_seen None clicks_settled (Suc (Suc 0)) = [(''left'', 3, 4, 2)]
   \<and> \<not> quit_pending (polled (Suc (Suc 0)) clicks_settled)
   \<and> map_option fst (wait_one_click (Fin 10) (Fin 0) None True None typing_world) =
       Some (Inr (One (ClickTime ''left'' 3 4 (5 / 2))))
   \<and> init_wait_press (Fin 2) (Fin 0) None True None typing_world = Some (Inr (Some 0, 0), keys_settled)
   \<and> \<not> in_time keys_settled 0 (Fin 2) (Suc 0)
   \<and> wait_one_press (Fin 2) (Fin 0) None True None typing_world =
       Some (Inr NoneNone, timed_out (Suc 0) keys_settled)
   \<and> init_wait_click (Fin 2) (Fin 0) None False None typing_world = Some (Inr (None, 0), clicks_settled)
   \<and> \<not> in_time clicks_settled 0 (Fin 2) (Suc 0)
   \<and> wait_one_click (Fin 2) (Fin 0) None False None typing_world =
       Some (Inr PyNone, timed_out (Suc 0) clicks_settled)"
proof -
  have calm: "\<not> quit_pending (polled (Suc (Suc 0)) clicks_settled)"
    by (simp add: quit_pending_def polled_def settled_arrived)
       (simp add: clicks_settled_def typing_world_def)
  have fq: "force_quit_keys typing_world = [''escape'']"
    "kb_time_correction typing_world = 1 / 4" "ms_time_correction typing_world = 1 / 2"
    by (simp_all add: typing_world_def)
  show ?thesis
    using calm
      wait_one_returns_first [where max_wait = "Fin 10" and min_wait = "Fin 0" and live_keys = None
          and timestamp = True and relative_to = None and w = typing_world
          and ?rel1.0 = "Some 0" and ?start_time = 0 and ?w0.0 = keys_settled and n = "Suc 0"
          and k = "''a''" and ?t0.0 = 2 and rest = "[(''b'', 5 / 2)]"
          and live_buttons = None and ?rel2.0 = "Some 0" and ?w1.0 = clicks_settled
          and b = "''left''" and x = 3 and y = 4 and ?t1.0 = 2 and ?rest1.0 = "[]"]
      wait_one_returns_first [where max_wait = "Fin 2" and min_wait = "Fin 0" and live_keys = None
          and timestamp = True and relative_to = None and w = typing_world
          and ?rel1.0 = "Some 0" and ?start_time = 0 and ?w0.0 = keys_settled and n = "Suc 0"
          and live_buttons = "Some []" and ?rel2.0 = "Some 0" and ?w1.0 = clicks_settled]
      wait_one_returns_first [where max_wait = "Fin 2" and min_wait = "Fin 0" and live_keys = "Some []"
          and timestamp = False and relative_to = None and w = typing_world
          and ?rel1.0 = None and ?start_time = 0 and ?w0.0 = keys_settled and n = "Suc 0"
          and live_buttons = None and ?rel2.0 = None and ?w1.0 = clicks_settled]
    by (simp add: typing_init_press typing_init_click settled_in_time settled_seen
          settled_arrived All_less_Suc fq)
qed

text \<open>
  Claim C9. \<^verbatim>\<open>wait_for_presses\<close> and \<^verbatim>\<open>wait_for_clicks\<close>, once the wait has started: the
  number \<open>n\<close> of rounds is the number of clock readings within \<^verbatim>\<open>max_wait\<close> of the start,
  whatever arrives; the result is the correction of what the last round retrieves, which is
  every event matching the filter among all that the \<open>n\<close> pumps after the clear handed
  over; when nothing arrived it is the empty list.
\<close>

theorem wait_for_polls_until_timeout:
  "(init_wait_press max_wait min_wait live_keys timestamp relative_to w =
       Some (Inr (rel1, start_time), w0)
    \<and> (\<forall>i<n. in_time w0 start_time max_wait i) \<and> \<not> in_time w0 start_time max_wait n \<longrightarrow>
      wait_for_presses max_wait min_wait live_keys timestamp relative_to w =
        Some (correct_presses (keys_seen live_keys w0 n) timestamp rel1 (timed_out n w0))
      \<and> keys_seen live_keys w0 n = filter (key_live live_keys w) (key_events (arrived w0 n))
      \<and> dispatch_calls (timed_out n w0) = dispatch_calls w0 + n
      \<and> ((\<forall>e\<in>set (keys_seen live_keys w0 n). fst e \<notin> set (force_quit_keys w)) \<longrightarrow>
           map_option fst (wait_for_presses max_wait min_wait live_keys timestamp relative_to w) =
             Some (Inr (map (\<lambda>(k, t0).
                if timestamp
                then KeyTime k (t0 + kb_time_correction w -
                       (case relative_to of None \<Rightarrow> start_time | Some r \<Rightarrow> r))
                else KeyOnly k) (keys_seen live_keys w0 n))))
      \<and> (arrived w0 n = [] \<longrightarrow>
           map_option fst (wait_for_presses max_wait min_wait live_keys timestamp relative_to w) =
             Some (Inr [])))
   \<and> (init_wait_click max_wait min_wait live_buttons timestamp relative_to w =
       Some (Inr (rel2, start_time), w1)
    \<and> (\<forall>i<n. in_time w1 start_time max_wait i) \<and> \<not> in_time w1 start_time max_wait n \<longrightarrow>
      wait_for_clicks max_wait min_wait live_buttons timestamp relative_to w =
        Some (correct_clicks (clicks_seen live_buttons w1 n) timestamp rel2 (timed_out n w1))
      \<and> clicks_seen live_buttons w1 n =
           filter (button_live live_buttons) (click_events (arrived w1 n))
      \<and> dispatch_calls (timed_out n w1) = dispatch_calls w1 + n
      \<and> (\<not> quit_pending (timed_out n w1) \<longrightarrow>
           map_option fst (wait_for_clicks max_wait min_wait live_buttons timestamp relative_to w) =
             Some (Inr (map (\<lambda>(b, x, y, t0).
                if timestamp
                then ClickTime b x y (t0 + ms_time_correction w -
                       (case relative_to of None \<Rightarrow> start_time | Some r \<Rightarrow> r))
                else ClickOnly b x y) (clicks_seen live_buttons w1 n))))
      \<and> (arrived w1 n = [] \<longrightarrow>
           map_option fst (wait_for_clicks max_wait min_wait live_buttons timestamp relative_to w) =
             Some (Inr [])))"
proof (intro conjI impI; (elim conjE)?)
  assume init: "init_wait_press max_wait min_wait live_keys timestamp relative_to w =
       Some (Inr (rel1, start_time), w0)"
    and rounds: "\<forall>i<n. in_time w0 start_time max_wait i" "\<not> in_time w0 start_time max_wait n"
  show run: "wait_for_presses max_wait min_wait live_keys timestamp relative_to w =
        Some (correct_presses (keys_seen live_keys w0 n) timestamp rel1 (timed_out n w0))"
    by (rule wait_for_presses_rounds [OF init rounds])
  have live: "key_live live_keys w0 = key_live live_keys w"
    by (rule key_live_cong) (rule init_wait_press_Inr(2) [OF init])
  show seen: "keys_seen live_keys w0 n = filter (key_live live_keys w) (key_events (arrived w0 n))"
    using init_wait_press_Inr(1) [OF init]
    by (simp add: keys_seen_settled live)
  show "dispatch_calls (timed_out n w0) = dispatch_calls w0 + n"
    by (simp add: timed_out_fields)
  show "map_option fst (wait_for_presses max_wait min_wait live_keys timestamp relative_to w) =
      Some (Inr (map (\<lambda>(k, t0).
        if timestamp
        then KeyTime k (t0 + kb_time_correction w -
               (case relative_to of None \<Rightarrow> start_time | Some r \<Rightarrow> r))
        else KeyOnly k) (keys_seen live_keys w0 n)))"
    if "\<forall>e\<in>set (keys_seen live_keys w0 n). fst e \<notin> set (force_quit_keys w)"
    by (rule wait_for_presses_result [OF init rounds that])
  show "map_option fst (wait_for_presses max_wait min_wait live_keys timestamp relative_to w) =
      Some (Inr [])"
    if "arrived w0 n = []"
    using that by (simp add: run seen correct_presses_eq)
next
  assume init: "init_wait_click max_wait min_wait live_buttons timestamp relative_to w =
       Some (Inr (rel2, start_time), w1)"
    and rounds: "\<forall>i<n. in_time w1 start_time max_wait i" "\<not> in_time w1 start_time max_wait n"
  show run: "wait_for_clicks max_wait min_wait live_buttons timestamp relative_to w =
        Some (correct_clicks (clicks_seen live_buttons w1 n) timestamp rel2 (timed_out n w1))"
    by (rule wait_for_clicks_rounds [OF init rounds])
  show seen: "clicks_seen live_buttons w1 n =
      filter (button_live live_buttons) (click_events (arrived w1 n))"
    using init_wait_click_Inr(1) [OF init]
    by (simp add: clicks_seen_settled)
  show "dispatch_calls (timed_out n w1) = dispatch_calls w1 + n"
    by (simp add: timed_out_fields)
  show "map_option fst (wait_for_clicks max_wait min_wait live_buttons timestamp relative_to w) =
      Some (Inr (map (\<lambda>(b, x, y, t0).
        if timestamp
        then ClickTime b x y (t0 + ms_time_correction w -
               (case relative_to of None \<Rightarrow> start_time | Some r \<Rightarrow> r))
        else ClickOnly b x y) (clicks_seen live_buttons w1 n)))"
    if "\<not> quit_pending (timed_out n w1)"
    by (rule wait_for_clicks_result [OF init rounds that])
  show "map_option fst (wait_for_clicks max_wait min_wait live_buttons timestamp relative_to w) =
      Some (Inr [])"
    if "arrived w1 n = []"
    using that by (simp add: run seen correct_clicks_eq)
qed

theorem wait_for_polls_until_timeout_witness:
  "init_wait_press (Fin 3) (Fin 0) None True None typing_world = Some (Inr (Some 0, 0), keys_settled)
   \<and> in_time keys_settled 0 (Fin 3) 0 \<and> in_time keys_settled 0 (Fin 3) (Suc 0)
   \<and> \<not> in_time keys_settled 0 (Fin 3) (Suc (Suc 0))
   \<and> keys_seen None keys_settled (Suc (Suc 0)) = [(''a'', 2), (''b'', 5 / 2)]
   \<and> map_option fst (wait_for_presses (Fin 3) (Fin 0) None True None typing_world) =
       Some (Inr [KeyTime ''a'' (9 / 4), KeyTime ''b'' (11 / 4)])
   \<and> init_wait_click (Fin 3) (Fin 0) None True None typing_world = Some (Inr (Some 0, 0), clicks_settled)
   \<and> in_time clicks_settled 0 (Fin 3) 0 \<and> in_time clicks_settled 0 (Fin 3) (Suc 0)
   \<and> \<not> in_time clicks_settled 0 (Fin 3) (Suc (Suc 0))
   \<and> \<not> quit_pending (timed_out (Suc (Suc 0)) clicks_settled)
   \<and> clicks_seen None clicks_settled (Suc (Suc 0)) = [(''left'', 3, 4, 2)]
   \<and> map_option fst (wait_for_clicks (Fin 3) (Fin 0) None True None typing_world) =
       Some (Inr [ClickTime ''left'' 3 4 (5 / 2)])
   \<and> init_wait_press (Fin 2) (Fin 0) None False None typing_world = Some (Inr (None, 0), keys_settled)
   \<and> \<not> in_time keys_settled 0 (Fin 2) (Suc 0)
   \<and> arrived keys_settled (Suc 0) = []
   \<and> map_option fst (wait_for_presses (Fin 2) (Fin 0) None False None typing_world) = Some (Inr [])
   \<and> init_wait_click (Fin 2) (Fin 0) None False None typing_world = Some (Inr (None, 0), clicks_settled)
   \<and> \<not> in_time clicks_settled 0 (Fin 2) (Suc 0)
   \<and> arrived clicks_settled (Suc 0) = []
   \<and> map_option fst (wait_for_clicks (Fin 2) (Fin 0) None False None typing_world) = Some (Inr [])"
proof -
  have fq: "force_quit_keys typing_world = [''escape'']"
    "kb_time_correction typing_world = 1 / 4" "ms_time_correction typing_world = 1 / 2"
    by (simp_all add: typing_world_def)
  have start3: "init_wait_press (Fin 3) (Fin 0) None True None typing_world =
      Some (Inr (Some 0, 0), keys_settled)"
    "init_wait_click (Fin 3) (Fin 0) None True None typing_world =
      Some (Inr (Some 0, 0), clicks_settled)"
    by (simp_all add: typing_init_press typing_init_click)
  have start2: "init_wait_press (Fin 2) (Fin 0) None False None typing_world =
      Some (Inr (None, 0), keys_settled)"
    "init_wait_click (Fin 2) (Fin 0) None False None typing_world =
      Some (Inr (None, 0), clicks_settled)"
    by (simp_all add: typing_init_press typing_init_click)
  have keys3: "\<forall>i<Suc (Suc 0). in_time keys_settled 0 (Fin 3) i"
    "\<not> in_time keys_settled 0 (Fin 3) (Suc (Suc 0))"
    and clicks3: "\<forall>i<Suc (Suc 0). in_time clicks_settled 0 (Fin 3) i"
    "\<not> in_time clicks_settled 0 (Fin 3) (Suc (Suc 0))"
    and keys2: "\<forall>i<Suc 0. in_time keys_settled 0 (Fin 2) i"
    "\<not> in_time keys_settled 0 (Fin 2) (Suc 0)"
    and clicks2: "\<forall>i<Suc 0. in_time clicks_settled 0 (Fin 2) i"
    "\<not> in_time clicks_settled 0 (Fin 2) (Suc 0)"
    by (simp_all add: settled_in_time All_less_Suc)
  have no_quit_key: "\<forall>e\<in>set (keys_seen None keys_settled (Suc (Suc 0))).
      fst e \<notin> set (force_quit_keys typing_world)"
    by (simp add: settled_seen fq)
  have no_quit: "\<not> quit_pending (timed_out (Suc (Suc 0)) clicks_settled)"
    by (simp add: quit_pending_def timed_out_def polled_def settled_arrived)
       (simp add: clicks_settled_def typing_world_def)
  note long = wait_for_polls_until_timeout
      [where max_wait = "Fin 3" and min_wait = "Fin 0" and live_keys = None
         and timestamp = True and relative_to = None and w = typing_world
         and ?rel1.0 = "Some 0" and ?start_time = 0 and ?w0.0 = keys_settled
         and n = "Suc (Suc 0)"
         and live_buttons = None and ?rel2.0 = "Some 0" and ?w1.0 = clicks_settled]
  note short = wait_for_polls_until_timeout
      [where max_wait = "Fin 2" and min_wait = "Fin 0" and live_keys = None
         and timestamp = False and relative_to = None and w = typing_world
         and ?rel1.0 = None and ?start_time = 0 and ?w0.0 = keys_settled
         and n = "Suc 0"
         and live_buttons = None and ?rel2.0 = None and ?w1.0 = clicks_settled]
  note long_keys = long [THEN conjunct1, THEN mp, OF conjI [OF start3(1) conjI [OF keys3]]]
  note long_clicks = long [THEN conjunct2, THEN mp, OF conjI [OF start3(2) conjI [OF clicks3]]]
  note short_keys = short [THEN conjunct1, THEN mp, OF conjI [OF start2(1) conjI [OF keys2]]]
  note short_clicks = short [THEN conjunct2, THEN mp, OF conjI [OF start2(2) conjI [OF clicks2]]]
  have pressed: "map_option fst (wait_for_presses (Fin 3) (Fin 0) None True None typing_world) =
      Some (Inr [KeyTime ''a'' (9 / 4), KeyTime ''b'' (11 / 4)])"
    using long_keys [THEN conjunct2, THEN conjunct2, THEN conjunct2, THEN conjunct1, THEN mp,
        OF no_quit_key]
    by (simp add: settled_seen fq)
  have clicked: "map_option fst (wait_for_clicks (Fin 3) (Fin 0) None True None typing_world) =
      Some (Inr [ClickTime ''left'' 3 4 (5 / 2)])"
    using long_clicks [THEN conjunct2, THEN conjunct2, THEN conjunct2, THEN conjunct1, THEN mp,
        OF no_quit]
    by (simp add: settled_seen fq)
  have none_pressed:
    "map_option fst (wait_for_presses (Fin 2) (Fin 0) None False None typing_world) = Some (Inr [])"
    by (rule short_keys [THEN conjunct2, THEN conjunct2, THEN conjunct2, THEN conjunct2, THEN mp,
        OF settled_arrived(1)])
  have none_clicked:
    "map_option fst (wait_for_clicks (Fin 2) (Fin 0) None False None typing_world) = Some (Inr [])"
    by (rule short_clicks [THEN conjunct2, THEN conjunct2, THEN conjunct2, THEN conjunct2, THEN mp,
        OF settled_arrived(3)])
  show ?thesis
    by (intro conjI start3 start2 pressed clicked none_pressed none_clicked no_quit
          keys3(2) clicks3(2) keys2(2) clicks2(2) settled_arrived(1) settled_arrived(3)
          settled_seen(2) settled_seen(4))
       (simp_all add: settled_in_time)
qed

subsection \<open>The order of a wait's first steps\<close>

lemma correct_presses_calls:
  "\<exists>rest. calls (snd (correct_presses pressed timestamp relative_to w)) = calls w @ rest"
  by (simp add: correct_presses_eq)

lemma correct_clicks_calls:
  "\<exists>rest. calls (snd (correct_clicks clicked timestamp relative_to w)) = calls w @ rest"
  by (simp add: correct_clicks_eq)

lemma wait_one_press_calls:
  assumes run: "wait_one_press max_wait min_wait live_keys timestamp relative_to w = Some (res, w')"
    and init: "init_wait_press max_wait min_wait live_keys timestamp relative_to w =
             Some (Inr (rel1, start_time), w0)"
  shows "\<exists>rest. calls w' = calls w0 @ rest"
proof -
  from run init obtain pressed w1 where
    loop: "wait_one_press_loop max_wait start_time live_keys [] w0 = Some (pressed, w1)"
    and out: "(res, w') =
      (if pressed \<noteq> [] then
         (case correct_presses pressed timestamp rel1 w1 of
            (Inl e, w2) \<Rightarrow> (Inl e, w2)
          | (Inr [], w2) \<Rightarrow> (Inl IndexError, w2)
          | (Inr (p # ps), w2) \<Rightarrow> (Inr (One p), w2))
       else if timestamp then (Inr NoneNone, w1)
       else (Inr PyNone, w1))"
    by (auto simp add: wait_one_press_def split: option.splits)
  have same: "calls w1 = calls w0"
    using wait_one_press_loop_calls [OF loop] by simp
  from out have "w' = w1 \<or> w' = snd (correct_presses pressed timestamp rel1 w1)"
    by (auto split: if_splits prod.splits sum.splits list.splits)
  then show ?thesis
    using correct_presses_calls [of pressed timestamp rel1 w1] same by auto
qed

lemma wait_for_presses_calls:
  assumes run: "wait_for_presses max_wait min_wait live_keys timestamp relative_to w = Some (res, w')"
    and init: "init_wait_press max_wait min_wait live_keys timestamp relative_to w =
             Some (Inr (rel1, start_time), w0)"
  shows "\<exists>rest. calls w' = calls w0 @ rest"
proof -
  from run init obtain pressed w1 where
    loop: "wait_for_presses_loop max_wait start_time live_keys [] w0 = Some (pressed, w1)"
    and out: "(res, w') = correct_presses pressed timestamp rel1 w1"
    by (auto simp add: wait_for_presses_def split: option.splits)
  have same: "calls w1 = calls w0"
    using wait_for_presses_loop_calls [OF loop] by simp
  from out have "w' = snd (correct_presses pressed timestamp rel1 w1)"
    by (metis snd_conv)
  then show ?thesis
    using correct_presses_calls [of pressed timestamp rel1 w1] same by auto
qed

lemma wait_one_click_calls:
  assumes run: "wait_one_click max_wait min_wait live_buttons timestamp relative_to w = Some (res, w')"
    and init: "init_wait_click max_wait min_wait live_buttons timestamp relative_to w =
             Some (Inr (rel1, start_time), w0)"
  shows "\<exists>rest. calls w' = calls w0 @ rest"
proof -
  from run init obtain clicked w1 where
    loop: "wait_one_click_loop max_wait start_time live_buttons [] w0 = Some (clicked, w1)"
    and out: "(res, w') =
      (if clicked \<noteq> [] then
         (case correct_clicks clicked timestamp rel1 w1 of
            (Inl e, w2) \<Rightarrow> (Inl e, w2)
          | (Inr [], w2) \<Rightarrow> (Inl IndexError, w2)
          | (Inr (c # cs), w2) \<Rightarrow> (Inr (One c), w2))
       else if timestamp then (Inr NoneNone, w1)
       else (Inr PyNone, w1))"
    by (auto simp add: wait_one_click_def split: option.splits)
  have same: "calls w1 = calls w0"
    using wait_one_click_loop_calls [OF loop] by simp
  from out have "w' = w1 \<or> w' = snd (correct_clicks clicked timestamp rel1 w1)"
    by (auto split: if_splits prod.splits sum.splits list.splits)
  then show ?thesis
    using correct_clicks_calls [of clicked timestamp rel1 w1] same by auto
qed

lemma wait_for_clicks_calls:
  assumes run: "wait_for_clicks max_wait min_wait live_buttons timestamp relative_to w = Some (res, w')"
    and init: "init_wait_click max_wait min_wait live_buttons timestamp relative_to w =
             Some (Inr (rel1, start_time), w0)"
  shows "\<exists>rest. calls w' = calls w0 @ rest"
proof -
  from run init obtain clicked w1 where
    loop: "wait_for_clicks_loop max_wait start_time live_buttons [] w0 = Some (clicked, w1)"
    and out: "(res, w') = correct_clicks clicked timestamp rel1 w1"
    by (auto simp add: wait_for_clicks_def split: option.splits)
  have same: "calls w1 = calls w0"
    using wait_for_clicks_loop_calls [OF loop] by simp
  from out have "w' = snd (correct_clicks clicked timestamp rel1 w1)"
    by (metis snd_conv)
  then show ?thesis
    using correct_clicks_calls [of clicked timestamp rel1 w1] same by auto
qed

lemma settle_quit_pending: "quit_pending settle_quit_world"
  by (simp add: quit_pending_def settle_quit_world_def)

lemma typing_calm: "\<not> quit_pending typing_world"
  by (simp add: quit_pending_def typing_world_def dispatch_events_def Let_def)

lemma typing_short_waits:
  "wait_one_press (Fin 2) (Fin 0) None True None typing_world =
     Some (Inr NoneNone, timed_out (Suc 0) keys_settled)"
  "wait_for_presses (Fin 2) (Fin 0) None True None typing_world =
     Some (Inr [], timed_out (Suc 0) keys_settled)"
  "wait_one_click (Fin 2) (Fin 0) None True None typing_world =
     Some (Inr NoneNone, timed_out (Suc 0) clicks_settled)"
  "wait_for_clicks (Fin 2) (Fin 0) None True None typing_world =
     Some (Inr [], timed_out (Suc 0) clicks_settled)"
proof -
  have start: "init_wait_press (Fin 2) (Fin 0) None True None typing_world =
      Some (Inr (Some 0, 0), keys_settled)"
    "init_wait_click (Fin 2) (Fin 0) None True None typing_world =
      Some (Inr (Some 0, 0), clicks_settled)"
    by (simp_all add: typing_init_press typing_init_click)
  have keys: "\<forall>i<Suc 0. in_time keys_settled 0 (Fin 2) i \<and> keys_seen None keys_settled (Suc i) = []"
    "\<forall>i<Suc 0. in_time keys_settled 0 (Fin 2) i"
    "\<not> in_time keys_settled 0 (Fin 2) (Suc 0)"
    and clicks:
    "\<forall>i<Suc 0. in_time clicks_settled 0 (Fin 2) i \<and> clicks_seen None clicks_settled (Suc i) = []"
    "\<forall>i<Suc 0. in_time clicks_settled 0 (Fin 2) i"
    "\<not> in_time clicks_settled 0 (Fin 2) (Suc 0)"
    by (simp_all add: settled_in_time settled_seen)
  show "wait_one_press (Fin 2) (Fin 0) None True None typing_world =
     Some (Inr NoneNone, timed_out (Suc 0) keys_settled)"
    using wait_one_press_timeout [OF start(1) keys(1) keys(3)] by simp
  show "wait_one_click (Fin 2) (Fin 0) None True None typing_world =
     Some (Inr NoneNone, timed_out (Suc 0) clicks_settled)"
    using wait_one_click_timeout [OF start(2) clicks(1) clicks(3)] by simp
  show "wait_for_presses (Fin 2) (Fin 0) None True None typing_world =
     Some (Inr [], timed_out (Suc 0) keys_settled)"
    using wait_for_presses_rounds [OF start(1) keys(2) keys(3)]
    by (simp add: settled_seen correct_presses_eq)
  show "wait_for_clicks (Fin 2) (Fin 0) None True None typing_world =
     Some (Inr [], timed_out (Suc 0) clicks_settled)"
    using wait_for_clicks_rounds [OF start(2) clicks(2) clicks(3)]
    by (simp add: settled_seen correct_clicks_eq)
qed

text \<open>
  Claim C2. Every wait method, once its arguments are accepted, calls \<^verbatim>\<open>wait_secs\<close> with
  \<^verbatim>\<open>min_wait\<close>, then \<^verbatim>\<open>check_force_quit\<close> once, then clears its buffer, in this order and
  before anything else is recorded (an infinite \<^verbatim>\<open>min_wait\<close> is set aside: that delay
  never ends). When a force-quit key is in the keyboard buffer after
  the pump of that check, the wait ends there with the force-quit error and nothing is
  cleared or polled; otherwise the monitor's buffer is empty when polling begins, whatever
  arrived before.
\<close>

theorem wait_settles_checks_then_clears:
  "(\<not> (isinf max_wait \<and> live_keys = Some []) \<and> fl_le min_wait max_wait
    \<and> min_wait \<noteq> PInf \<longrightarrow>
      (quit_pending w \<longrightarrow>
         (\<exists>w0. init_wait_press max_wait min_wait live_keys timestamp relative_to w =
                 Some (Inl (RuntimeError ''Quit key pressed''), w0)
               \<and> calls w0 = calls w @ [WaitSecs min_wait, CheckForceQuit KeysNone]
               \<and> wait_one_press max_wait min_wait live_keys timestamp relative_to w =
                 Some (Inl (RuntimeError ''Quit key pressed''), w0)
               \<and> wait_for_presses max_wait min_wait live_keys timestamp relative_to w =
                 Some (Inl (RuntimeError ''Quit key pressed''), w0)))
      \<and> (\<not> quit_pending w \<longrightarrow>
         (\<exists>w0. init_wait_press max_wait min_wait live_keys timestamp relative_to w =
                 Some (Inr (if timestamp \<and> relative_to = None
                            then Some (clock_script w (clock_calls w)) else relative_to,
                            clock_script w (clock_calls w)), w0)
               \<and> calls w0 = calls w @ [WaitSecs min_wait, CheckForceQuit KeysNone, ClearKeyboard]
               \<and> keyboard_buffer w0 = []
               \<and> dispatch_calls w0 = dispatch_calls w + 2)
         \<and> (wait_one_press max_wait min_wait live_keys timestamp relative_to w =
               Some (res, w') \<longrightarrow>
              (\<exists>rest. calls w' =
                 calls w @ [WaitSecs min_wait, CheckForceQuit KeysNone, ClearKeyboard] @ rest))
         \<and> (wait_for_presses max_wait min_wait live_keys timestamp relative_to w =
               Some (res1, w1) \<longrightarrow>
              (\<exists>rest. calls w1 =
                 calls w @ [WaitSecs min_wait, CheckForceQuit KeysNone, ClearKeyboard] @ rest))))
   \<and> (\<not> (isinf max_wait \<and> live_buttons = Some []) \<and> fl_le min_wait max_wait
    \<and> min_wait \<noteq> PInf \<longrightarrow>
      (quit_pending w \<longrightarrow>
         (\<exists>w0. init_wait_click max_wait min_wait live_buttons timestamp relative_to w =
                 Some (Inl (RuntimeError ''Quit key pressed''), w0)
               \<and> calls w0 = calls w @ [WaitSecs min_wait, CheckForceQuit KeysNone]
               \<and> wait_one_click max_wait min_wait live_buttons timestamp relative_to w =
                 Some (Inl (RuntimeError ''Quit key pressed''), w0)
               \<and> wait_for_clicks max_wait min_wait live_buttons timestamp relative_to w =
                 Some (Inl (RuntimeError ''Quit key pressed''), w0)))
      \<and> (\<not> quit_pending w \<longrightarrow>
         (\<exists>w0. init_wait_click max_wait min_wait live_buttons timestamp relative_to w =
                 Some (Inr (if timestamp \<and> relative_to = None
                            then Some (clock_script w (clock_calls w)) else relative_to,
                            clock_script w (clock_calls w)), w0)
               \<and> calls w0 = calls w @ [WaitSecs min_wait, CheckForceQuit KeysNone, ClearMouse]
               \<and> mouse_buffer w0 = []
               \<and> dispatch_calls w0 = dispatch_calls w + 2)
         \<and> (wait_one_click max_wait min_wait live_buttons timestamp relative_to w =
               Some (res2, w2) \<longrightarrow>
              (\<exists>rest. calls w2 =
                 calls w @ [WaitSecs min_wait, CheckForceQuit KeysNone, ClearMouse] @ rest))
         \<and> (wait_for_clicks max_wait min_wait live_buttons timestamp relative_to w =
               Some (res3, w3) \<longrightarrow>
              (\<exists>rest. calls w3 =
                 calls w @ [WaitSecs min_wait, CheckForceQuit KeysNone, ClearMouse] @ rest))))"
proof -
  let ?rel = "if timestamp \<and> relative_to = None then Some (clock_script w (clock_calls w))
                else relative_to"
  let ?st = "clock_script w (clock_calls w)"
  have kb_abort: "\<exists>w0. init_wait_press max_wait min_wait live_keys timestamp relative_to w =
          Some (Inl (RuntimeError ''Quit key pressed''), w0)
        \<and> calls w0 = calls w @ [WaitSecs min_wait, CheckForceQuit KeysNone]
        \<and> wait_one_press max_wait min_wait live_keys timestamp relative_to w =
          Some (Inl (RuntimeError ''Quit key pressed''), w0)
        \<and> wait_for_presses max_wait min_wait live_keys timestamp relative_to w =
          Some (Inl (RuntimeError ''Quit key pressed''), w0)"
    if "\<not> (isinf max_wait \<and> live_keys = Some [])" "fl_le min_wait max_wait"
      "min_wait \<noteq> PInf" "quit_pending w"
    using that
    by (auto simp add: wait_one_press_def wait_for_presses_def init_wait_press_eq)
  have kb_start: "\<exists>w0. init_wait_press max_wait min_wait live_keys timestamp relative_to w = Some (Inr (?rel, ?st), w0)
        \<and> calls w0 = calls w @ [WaitSecs min_wait, CheckForceQuit KeysNone, ClearKeyboard]
        \<and> keyboard_buffer w0 = []
        \<and> dispatch_calls w0 = dispatch_calls w + 2"
    if "\<not> (isinf max_wait \<and> live_keys = Some [])" "fl_le min_wait max_wait"
      "min_wait \<noteq> PInf" "\<not> quit_pending w"
    using that by (auto simp add: init_wait_press_eq)
  have kb_one: "\<exists>rest. calls w' =
      calls w @ [WaitSecs min_wait, CheckForceQuit KeysNone, ClearKeyboard] @ rest"
    if valid: "\<not> (isinf max_wait \<and> live_keys = Some [])" "fl_le min_wait max_wait"
      "min_wait \<noteq> PInf" "\<not> quit_pending w"
      and run: "wait_one_press max_wait min_wait live_keys timestamp relative_to w =
        Some (res, w')"
  proof -
    from kb_start [OF valid] obtain w0 where
      init: "init_wait_press max_wait min_wait live_keys timestamp relative_to w = Some (Inr (?rel, ?st), w0)"
      and trace: "calls w0 = calls w @ [WaitSecs min_wait, CheckForceQuit KeysNone, ClearKeyboard]"
      by blast
    from wait_one_press_calls [OF run init] trace show ?thesis
      by auto
  qed
  have kb_many: "\<exists>rest. calls w1 =
      calls w @ [WaitSecs min_wait, CheckForceQuit KeysNone, ClearKeyboard] @ rest"
    if valid: "\<not> (isinf max_wait \<and> live_keys = Some [])" "fl_le min_wait max_wait"
      "min_wait \<noteq> PInf" "\<not> quit_pending w"
      and run: "wait_for_presses max_wait min_wait live_keys timestamp relative_to w =
        Some (res1, w1)"
  proof -
    from kb_start [OF valid] obtain w0 where
      init: "init_wait_press max_wait min_wait live_keys timestamp relative_to w = Some (Inr (?rel, ?st), w0)"
      and trace: "calls w0 = calls w @ [WaitSecs min_wait, CheckForceQuit KeysNone, ClearKeyboard]"
      by blast
    from wait_for_presses_calls [OF run init] trace show ?thesis
      by auto
  qed
  have ms_abort: "\<exists>w0. init_wait_click max_wait min_wait live_buttons timestamp relative_to w =
          Some (Inl (RuntimeError ''Quit key pressed''), w0)
        \<and> calls w0 = calls w @ [WaitSecs min_wait, CheckForceQuit KeysNone]
        \<and> wait_one_click max_wait min_wait live_buttons timestamp relative_to w =
          Some (Inl (RuntimeError ''Quit key pressed''), w0)
        \<and> wait_for_clicks max_wait min_wait live_buttons timestamp relative_to w =
          Some (Inl (RuntimeError ''Quit key pressed''), w0)"
    if "\<not> (isinf max_wait \<and> live_buttons = Some [])" "fl_le min_wait max_wait"
      "min_wait \<noteq> PInf" "quit_pending w"
    using that
    by (auto simp add: wait_one_click_def wait_for_clicks_def init_wait_click_eq)
  have ms_start: "\<exists>w0. init_wait_click max_wait min_wait live_buttons timestamp relative_to w = Some (Inr (?rel, ?st), w0)
        \<and> calls w0 = calls w @ [WaitSecs min_wait, CheckForceQuit KeysNone, ClearMouse]
        \<and> mouse_buffer w0 = []
        \<and> dispatch_calls w0 = dispatch_calls w + 2"
    if "\<not> (isinf max_wait \<and> live_buttons = Some [])" "fl_le min_wait max_wait"
      "min_wait \<noteq> PInf" "\<not> quit_pending w"
    using that by (auto simp add: init_wait_click_eq)
  have ms_one: "\<exists>rest. calls w2 =
      calls w @ [WaitSecs min_wait, CheckForceQuit KeysNone, ClearMouse] @ rest"
    if valid: "\<not> (isinf max_wait \<and> live_buttons = Some [])" "fl_le min_wait max_wait"
      "min_wait \<noteq> PInf" "\<not> quit_pending w"
      and run: "wait_one_click max_wait min_wait live_buttons timestamp relative_to w =
        Some (res2, w2)"
  proof -
    from ms_start [OF valid] obtain w0 where
      init: "init_wait_click max_wait min_wait live_buttons timestamp relative_to w = Some (Inr (?rel, ?st), w0)"
      and trace: "calls w0 = calls w @ [WaitSecs min_wait, CheckForceQuit KeysNone, ClearMouse]"
      by blast
    from wait_one_click_calls [OF run init] trace show ?thesis
      by auto
  qed
  have ms_many: "\<exists>rest. calls w3 =
      calls w @ [WaitSecs min_wait, CheckForceQuit KeysNone, ClearMouse] @ rest"
    if valid: "\<not> (isinf max_wait \<and> live_buttons = Some [])" "fl_le min_wait max_wait"
      "min_wait \<noteq> PInf" "\<not> quit_pending w"
      and run: "wait_for_clicks max_wait min_wait live_buttons timestamp relative_to w =
        Some (res3, w3)"
  proof -
    from ms_start [OF valid] obtain w0 where
      init: "init_wait_click max_wait min_wait live_buttons timestamp relative_to w = Some (Inr (?rel, ?st), w0)"
      and trace: "calls w0 = calls w @ [WaitSecs min_wait, CheckForceQuit KeysNone, ClearMouse]"
      by blast
    from wait_for_clicks_calls [OF run init] trace show ?thesis
      by auto
  qed
  show ?thesis
    by (intro conjI impI; elim conjE;
        (rule kb_abort ms_abort kb_start ms_start kb_one kb_many ms_one ms_many; assumption))
qed

theorem wait_settles_checks_then_clears_witness:
  "fl_le (Fin 1) (Fin 5) \<and> quit_pending settle_quit_world
   \<and> (\<exists>w0. init_wait_press (Fin 5) (Fin 1) None False None settle_quit_world =
              Some (Inl (RuntimeError ''Quit key pressed''), w0)
            \<and> calls w0 = calls settle_quit_world @ [WaitSecs (Fin 1), CheckForceQuit KeysNone]
            \<and> wait_one_press (Fin 5) (Fin 1) None False None settle_quit_world =
              Some (Inl (RuntimeError ''Quit key pressed''), w0)
            \<and> wait_for_presses (Fin 5) (Fin 1) None False None settle_quit_world =
              Some (Inl (RuntimeError ''Quit key pressed''), w0))
   \<and> (\<exists>w0. init_wait_click (Fin 5) (Fin 1) None False None settle_quit_world =
              Some (Inl (RuntimeError ''Quit key pressed''), w0)
            \<and> calls w0 = calls settle_quit_world @ [WaitSecs (Fin 1), CheckForceQuit KeysNone]
            \<and> wait_one_click (Fin 5) (Fin 1) None False None settle_quit_world =
              Some (Inl (RuntimeError ''Quit key pressed''), w0)
            \<and> wait_for_clicks (Fin 5) (Fin 1) None False None settle_quit_world =
              Some (Inl (RuntimeError ''Quit key pressed''), w0))
   \<and> fl_le (Fin 0) (Fin 2) \<and> \<not> quit_pending typing_world
   \<and> init_wait_press (Fin 2) (Fin 0) None True None typing_world =
       Some (Inr (Some 0, 0), keys_settled)
   \<and> calls keys_settled =
       calls typing_world @ [WaitSecs (Fin 0), CheckForceQuit KeysNone, ClearKeyboard]
   \<and> keyboard_buffer keys_settled = []
   \<and> init_wait_click (Fin 2) (Fin 0) None True None typing_world =
       Some (Inr (Some 0, 0), clicks_settled)
   \<and> calls clicks_settled =
       calls typing_world @ [WaitSecs (Fin 0), CheckForceQuit KeysNone, ClearMouse]
   \<and> mouse_buffer clicks_settled = []
   \<and> wait_one_press (Fin 2) (Fin 0) None True None typing_world =
       Some (Inr NoneNone, timed_out (Suc 0) keys_settled)
   \<and> (\<exists>rest. calls (timed_out (Suc 0) keys_settled) =
         calls typing_world @ [WaitSecs (Fin 0), CheckForceQuit KeysNone, ClearKeyboard] @ rest)
   \<and> wait_for_clicks (Fin 2) (Fin 0) None True None typing_world =
       Some (Inr [], timed_out (Suc 0) clicks_settled)
   \<and> (\<exists>rest. calls (timed_out (Suc 0) clicks_settled) =
         calls typing_world @ [WaitSecs (Fin 0), CheckForceQuit KeysNone, ClearMouse] @ rest)"
proof -
  have valid_quit:
    "\<not> (isinf (Fin 5) \<and> (None :: pykey list option) = Some []) \<and> fl_le (Fin 1) (Fin 5)
       \<and> Fin 1 \<noteq> PInf"
    "\<not> (isinf (Fin 5) \<and> (None :: string list option) = Some []) \<and> fl_le (Fin 1) (Fin 5)
       \<and> Fin 1 \<noteq> PInf"
    by simp_all
  have valid_calm:
    "\<not> (isinf (Fin 2) \<and> (None :: pykey list option) = Some []) \<and> fl_le (Fin 0) (Fin 2)
       \<and> Fin 0 \<noteq> PInf"
    "\<not> (isinf (Fin 2) \<and> (None :: string list option) = Some []) \<and> fl_le (Fin 0) (Fin 2)
       \<and> Fin 0 \<noteq> PInf"
    by simp_all
  note quit = wait_settles_checks_then_clears
      [where max_wait = "Fin 5" and min_wait = "Fin 1" and live_keys = None
        and timestamp = False and relative_to = None and w = settle_quit_world
        and live_buttons = None]
  note calm = wait_settles_checks_then_clears
      [where max_wait = "Fin 2" and min_wait = "Fin 0" and live_keys = None
        and timestamp = True and relative_to = None and w = typing_world
        and live_buttons = None
        and res = "Inr NoneNone" and w' = "timed_out (Suc 0) keys_settled"
        and ?res3.0 = "Inr []" and ?w3.0 = "timed_out (Suc 0) clicks_settled"]
  note kb_quit = quit [THEN conjunct1, THEN mp, OF valid_quit(1), THEN conjunct1, THEN mp,
      OF settle_quit_pending]
  note ms_quit = quit [THEN conjunct2, THEN mp, OF valid_quit(2), THEN conjunct1, THEN mp,
      OF settle_quit_pending]
  note kb_calm = calm [THEN conjunct1, THEN mp, OF valid_calm(1), THEN conjunct2, THEN mp,
      OF typing_calm]
  note ms_calm = calm [THEN conjunct2, THEN mp, OF valid_calm(2), THEN conjunct2, THEN mp,
      OF typing_calm]
  note kb_trace = kb_calm [THEN conjunct2, THEN conjunct1, THEN mp, OF typing_short_waits(1)]
  note ms_trace = ms_calm [THEN conjunct2, THEN conjunct2, THEN mp, OF typing_short_waits(4)]
  have starts: "init_wait_press (Fin 2) (Fin 0) None True None typing_world =
      Some (Inr (Some 0, 0), keys_settled)"
    "init_wait_click (Fin 2) (Fin 0) None True None typing_world =
      Some (Inr (Some 0, 0), clicks_settled)"
    by (simp_all add: typing_init_press typing_init_click)
  show ?thesis
    by (intro conjI settle_quit_pending typing_calm typing_short_waits(1) typing_short_waits(4)
          kb_trace ms_trace kb_quit ms_quit starts)
       (simp_all add: keys_settled_def clicks_settled_def typing_world_def)
qed

subsection \<open>Force-quit on retrieval\<close>

lemma key_live_quit: "fst e \<in> set (force_quit_keys w) \<Longrightarrow> key_live live w e"
  by (cases live) (simp_all add: key_live_def)

lemma correct_presses_quit:
  "\<exists>e\<in>set pressed. fst e \<in> set (force_quit_keys w) \<Longrightarrow>
   fst (correct_presses pressed timestamp relative_to w) = Inl (RuntimeError ''Quit key pressed'')"
  by (auto simp add: correct_presses_eq)

lemma correct_clicks_quit:
  "clicked \<noteq> [] \<Longrightarrow> quit_pending w \<Longrightarrow>
   fst (correct_clicks clicked timestamp relative_to w) = Inl (RuntimeError ''Quit key pressed'')"
  by (simp add: correct_clicks_eq)

lemma get_presses_quit:
  assumes "quit_pending w"
    and "\<not> (timestamp \<and> relative_to = None \<and> kb_listen_start w = None)"
  shows "fst (get_presses live_keys timestamp relative_to w) =
           Inl (RuntimeError ''Quit key pressed'')"
proof -
  from assms(1) obtain e where e: "e \<in> set (keyboard_buffer (dispatch_events w))"
      "fst e \<in> set (force_quit_keys w)"
    by (auto simp add: quit_pending_def)
  then have "\<exists>e\<in>set (filter (key_live live_keys w) (keyboard_buffer (dispatch_events w))).
      fst e \<in> set (force_quit_keys (dispatch_events w))"
    using key_live_quit [of e w live_keys] by auto
  then show ?thesis
    using assms(2)
    by (simp add: get_presses_def retrieve_keyboard_events_live correct_presses_quit)
qed

lemma get_clicks_quit:
  assumes "fst (retrieve_mouse_events live_buttons w) \<noteq> []"
    and "quit_pending (dispatch_events w)"
    and "\<not> (timestamp \<and> relative_to = None \<and> ms_listen_start w = None)"
  shows "fst (get_clicks live_buttons timestamp relative_to w) =
           Inl (RuntimeError ''Quit key pressed'')"
  using assms
  by (simp add: get_clicks_def retrieve_mouse_events_live correct_clicks_quit)

lemma keys_seen_quit:
  assumes "\<exists>e\<in>set (key_events (arrived w0 n)). fst e \<in> set (force_quit_keys w0)"
  shows "\<exists>e\<in>set (keys_seen live w0 n). fst e \<in> set (force_quit_keys w0)"
proof -
  from assms obtain e where e: "e \<in> set (key_events (arrived w0 n))"
      "fst e \<in> set (force_quit_keys w0)"
    by blast
  then have "e \<in> set (keys_seen live w0 n)"
    using key_live_quit [of e w0 live] by (simp add: keys_seen_def polled_fields)
  with e(2) show ?thesis
    by blast
qed

lemma wait_one_press_quit:
  assumes init: "init_wait_press max_wait min_wait live_keys timestamp relative_to w =
             Some (Inr (rel1, start_time), w0)"
    and rounds: "\<forall>i<n. in_time w0 start_time max_wait i \<and> keys_seen live_keys w0 (Suc i) = []"
      "in_time w0 start_time max_wait n"
    and quit: "\<exists>e\<in>set (key_events (arrived w0 (Suc n))). fst e \<in> set (force_quit_keys w)"
  shows "map_option fst (wait_one_press max_wait min_wait live_keys timestamp relative_to w) =
           Some (Inl (RuntimeError ''Quit key pressed''))"
proof -
  have fq: "force_quit_keys w0 = force_quit_keys w"
    by (rule init_wait_press_Inr(2) [OF init])
  have seen: "\<exists>e\<in>set (keys_seen live_keys w0 (Suc n)). fst e \<in> set (force_quit_keys w0)"
    using quit by (intro keys_seen_quit) (simp add: fq)
  then have ne: "keys_seen live_keys w0 (Suc n) \<noteq> []"
    by auto
  have loop: "wait_one_press_loop max_wait start_time live_keys [] w0 =
      Some (keys_seen live_keys w0 (Suc n), polled (Suc n) w0)"
    by (rule wait_one_press_loop_found [OF rounds ne])
  have "\<exists>e\<in>set (keys_seen live_keys w0 (Suc n)). fst e \<in> set (force_quit_keys (polled (Suc n) w0))"
    using seen by (simp add: polled_fields)
  then obtain w2 where "correct_presses (keys_seen live_keys w0 (Suc n)) timestamp rel1
      (polled (Suc n) w0) = (Inl (RuntimeError ''Quit key pressed''), w2)"
    using correct_presses_quit [of "keys_seen live_keys w0 (Suc n)" "polled (Suc n) w0" timestamp rel1]
    by (metis prod.collapse)
  then show ?thesis
    using ne by (simp add: wait_one_press_def init loop)
qed

lemma wait_for_presses_quit:
  assumes init: "init_wait_press max_wait min_wait live_keys timestamp relative_to w =
             Some (Inr (rel1, start_time), w0)"
    and rounds: "\<forall>i<n. in_time w0 start_time max_wait i" "\<not> in_time w0 start_time max_wait n"
    and quit: "\<exists>e\<in>set (key_events (arrived w0 n)). fst e \<in> set (force_quit_keys w)"
  shows "map_option fst (wait_for_presses max_wait min_wait live_keys timestamp relative_to w) =
           Some (Inl (RuntimeError ''Quit key pressed''))"
proof -
  have fq: "force_quit_keys w0 = force_quit_keys w"
    by (rule init_wait_press_Inr(2) [OF init])
  have seen: "\<exists>e\<in>set (keys_seen live_keys w0 n). fst e \<in> set (force_quit_keys w0)"
    using quit by (intro keys_seen_quit) (simp add: fq)
  then have "\<exists>e\<in>set (keys_seen live_keys w0 n). fst e \<in> set (force_quit_keys (timed_out n w0))"
    by (simp add: timed_out_fields)
  then show ?thesis
    by (simp add: wait_for_presses_rounds [OF init rounds] correct_presses_quit)
qed

lemma wait_one_click_quit:
  assumes init: "init_wait_click max_wait min_wait live_buttons timestamp relative_to w =
             Some (Inr (rel1, start_time), w0)"
    and rounds: "\<forall>i<n. in_time w0 start_time max_wait i \<and> clicks_seen live_buttons w0 (Suc i) = []"
      "in_time w0 start_time max_wait n"
    and ne: "clicks_seen live_buttons w0 (Suc n) \<noteq> []"
    and quit: "quit_pending (polled (Suc n) w0)"
  shows "map_option fst (wait_one_click max_wait min_wait live_buttons timestamp relative_to w) =
           Some (Inl (RuntimeError ''Quit key pressed''))"
proof -
  have loop: "wait_one_click_loop max_wait start_time live_buttons [] w0 =
      Some (clicks_seen live_buttons w0 (Suc n), polled (Suc n) w0)"
    by (rule wait_one_click_loop_found [OF rounds ne])
  obtain w2 where "correct_clicks (clicks_seen live_buttons w0 (Suc n)) timestamp rel1
      (polled (Suc n) w0) = (Inl (RuntimeError ''Quit key pressed''), w2)"
    using correct_clicks_quit [OF ne quit, of timestamp rel1]
    by (metis prod.collapse)
  then show ?thesis
    using ne by (simp add: wait_one_click_def init loop)
qed

lemma wait_for_clicks_quit:
  assumes init: "init_wait_click max_wait min_wait live_buttons timestamp relative_to w =
             Some (Inr (rel1, start_time), w0)"
    and rounds: "\<forall>i<n. in_time w0 start_time max_wait i" "\<not> in_time w0 start_time max_wait n"
    and ne: "clicks_seen live_buttons w0 n \<noteq> []"
    and quit: "quit_pending (timed_out n w0)"
  shows "map_option fst (wait_for_clicks max_wait min_wait live_buttons timestamp relative_to w) =
           Some (Inl (RuntimeError ''Quit key pressed''))"
  by (simp add: wait_for_clicks_rounds [OF init rounds] correct_clicks_quit [OF ne quit])

lemma keyboard_settle_quit:
  assumes "\<not> (isinf max_wait \<and> live_keys = Some [])" "fl_le min_wait max_wait"
    "min_wait \<noteq> PInf" "quit_pending w"
  shows "map_option fst (wait_one_press max_wait min_wait live_keys timestamp relative_to w) =
           Some (Inl (RuntimeError ''Quit key pressed''))"
    and "map_option fst (wait_for_presses max_wait min_wait live_keys timestamp relative_to w) =
           Some (Inl (RuntimeError ''Quit key pressed''))"
  using assms
  by (auto simp add: wait_one_press_def wait_for_presses_def init_wait_press_eq)

lemma mouse_settle_quit:
  assumes "\<not> (isinf max_wait \<and> live_buttons = Some [])" "fl_le min_wait max_wait"
    "min_wait \<noteq> PInf" "quit_pending w"
  shows "map_option fst (wait_one_click max_wait min_wait live_buttons timestamp relative_to w) =
           Some (Inl (RuntimeError ''Quit key pressed''))"
    and "map_option fst (wait_for_clicks max_wait min_wait live_buttons timestamp relative_to w) =
           Some (Inl (RuntimeError ''Quit key pressed''))"
  using assms
  by (auto simp add: wait_one_click_def wait_for_clicks_def init_wait_click_eq)

lemma late_quit_init_click:
  "init_wait_click (Fin 3) (Fin 0) None False None late_quit_world =
     Some (Inr (None, 0), late_clicks_settled)"
  by (simp add: init_wait_click_eq quit_pending_def late_quit_world_def late_clicks_settled_def
        quiet_world_def dispatch_events_def Let_def)

lemma late_settled_in_time: "in_time late_clicks_settled 0 (Fin m) i = (1 + real i < m)"
  by (simp add: in_time_def late_clicks_settled_def late_quit_world_def)

lemma late_settled_arrived:
  "arrived late_clicks_settled (Suc 0) = [KeyPress ''escape'' (3 / 2)]"
  "arrived late_clicks_settled (Suc (Suc 0)) = [KeyPress ''escape'' (3 / 2)]"
  by (simp_all add: arrived_def late_clicks_settled_def late_quit_world_def)

lemma late_settled_seen:
  "clicks_seen None late_clicks_settled (Suc 0) = []"
  "clicks_seen None late_clicks_settled (Suc (Suc 0)) = []"
  by (simp_all add: clicks_seen_def polled_fields late_settled_arrived)
     (simp_all add: late_clicks_settled_def late_quit_world_def)

lemma click_quit_init:
  "init_wait_press (Fin 3) (Fin 0) (Some [KStr ''a'']) False None click_quit_world =
     Some (Inr (None, 0), click_quit_keys_settled)"
  "init_wait_click (Fin 3) (Fin 0) None False None click_quit_world =
     Some (Inr (None, 0), click_quit_clicks_settled)"
  by (simp_all add: init_wait_press_eq init_wait_click_eq quit_pending_def click_quit_world_def
        click_quit_keys_settled_def click_quit_clicks_settled_def
        quiet_world_def dispatch_events_def Let_def)

lemma click_quit_in_time:
  "in_time click_quit_keys_settled 0 (Fin m) i = (1 + real i < m)"
  "in_time click_quit_clicks_settled 0 (Fin m) i = (1 + real i < m)"
  by (simp_all add: in_time_def click_quit_keys_settled_def click_quit_clicks_settled_def
        click_quit_world_def)

lemma click_quit_arrived:
  "arrived click_quit_keys_settled (Suc 0) =
     [MousePress ''left'' 1 2 (5 / 4), KeyPress ''escape'' (3 / 2)]"
  "arrived click_quit_keys_settled (Suc (Suc 0)) =
     [MousePress ''left'' 1 2 (5 / 4), KeyPress ''escape'' (3 / 2)]"
  "arrived click_quit_clicks_settled (Suc 0) =
     [MousePress ''left'' 1 2 (5 / 4), KeyPress ''escape'' (3 / 2)]"
  "arrived click_quit_clicks_settled (Suc (Suc 0)) =
     [MousePress ''left'' 1 2 (5 / 4), KeyPress ''escape'' (3 / 2)]"
  by (simp_all add: arrived_def click_quit_keys_settled_def click_quit_clicks_settled_def
        click_quit_world_def)

lemma click_quit_seen:
  "clicks_seen None click_quit_clicks_settled (Suc 0) = [(''left'', 1, 2, 5 / 4)]"
  "clicks_seen None click_quit_clicks_settled (Suc (Suc 0)) = [(''left'', 1, 2, 5 / 4)]"
  by (simp_all add: clicks_seen_def polled_fields click_quit_arrived button_live_def)
     (simp_all add: click_quit_clicks_settled_def click_quit_world_def)

lemma click_quit_pending:
  "quit_pending (polled (Suc 0) click_quit_clicks_settled)"
  "quit_pending (timed_out (Suc (Suc 0)) click_quit_clicks_settled)"
  by (simp_all add: quit_pending_def timed_out_def polled_def click_quit_arrived)
     (simp_all add: click_quit_clicks_settled_def click_quit_world_def)

lemma click_quit_keys: "force_quit_keys click_quit_world = [''escape'']"
  by (simp add: click_quit_world_def)

text \<open>
  Claim C3, as the code has it. The keyboard checks on every retrieval: \<^verbatim>\<open>get_presses\<close>
  raises the force-quit error whenever a force-quit key is in the buffer after the pump,
  whatever the filter, and so does the correction step of the keyboard waits whenever such
  a key is among the presses it is given. A force-quit key pending when the settle delay is
  over ends every wait of both monitors with the error. A force-quit key that arrives
  while \<^verbatim>\<open>wait_one_press\<close> polls ends it with the error at that round, and one that arrives
  while \<^verbatim>\<open>wait_for_presses\<close> polls ends it with the error once \<^verbatim>\<open>max_wait\<close> has elapsed.
  The mouse calls the keyboard's check in its correction step when at least one click was
  retrieved, and then the error is raised if a force-quit key is in the keyboard buffer.
\<close>

theorem force_quit_checked_when_retrieved:
  "(quit_pending w \<and> \<not> (timestamp \<and> relative_to = None \<and> kb_listen_start w = None) \<longrightarrow>
      fst (get_presses live_keys timestamp relative_to w) =
        Inl (RuntimeError ''Quit key pressed''))
   \<and> ((\<exists>e\<in>set pressed. fst e \<in> set (force_quit_keys w)) \<longrightarrow>
      fst (correct_presses pressed timestamp relative_to w) =
        Inl (RuntimeError ''Quit key pressed''))
   \<and> (\<not> (isinf max_wait \<and> live_keys = Some []) \<and> fl_le min_wait max_wait
       \<and> min_wait \<noteq> PInf \<and> quit_pending w \<longrightarrow>
      map_option fst (wait_one_press max_wait min_wait live_keys timestamp relative_to w) =
        Some (Inl (RuntimeError ''Quit key pressed''))
      \<and> map_option fst (wait_for_presses max_wait min_wait live_keys timestamp relative_to w) =
        Some (Inl (RuntimeError ''Quit key pressed'')))
   \<and> (\<not> (isinf max_wait \<and> live_buttons = Some []) \<and> fl_le min_wait max_wait
       \<and> min_wait \<noteq> PInf \<and> quit_pending w \<longrightarrow>
      map_option fst (wait_one_click max_wait min_wait live_buttons timestamp relative_to w) =
        Some (Inl (RuntimeError ''Quit key pressed''))
      \<and> map_option fst (wait_for_clicks max_wait min_wait live_buttons timestamp relative_to w) =
        Some (Inl (RuntimeError ''Quit key pressed'')))
   \<and> (init_wait_press max_wait min_wait live_keys timestamp relative_to w =
         Some (Inr (rel1, start_time), w0)
       \<and> (\<forall>i<n. in_time w0 start_time max_wait i \<and> keys_seen live_keys w0 (Suc i) = [])
       \<and> in_time w0 start_time max_wait n
       \<and> (\<exists>e\<in>set (key_events (arrived w0 (Suc n))). fst e \<in> set (force_quit_keys w)) \<longrightarrow>
      map_option fst (wait_one_press max_wait min_wait live_keys timestamp relative_to w) =
        Some (Inl (RuntimeError ''Quit key pressed'')))
   \<and> (init_wait_press max_wait min_wait live_keys timestamp relative_to w =
         Some (Inr (rel1, start_time), w0)
       \<and> (\<forall>i<n. in_time w0 start_time max_wait i) \<and> \<not> in_time w0 start_time max_wait n
       \<and> (\<exists>e\<in>set (key_events (arrived w0 n)). fst e \<in> set (force_quit_keys w)) \<longrightarrow>
      map_option fst (wait_for_presses max_wait min_wait live_keys timestamp relative_to w) =
        Some (Inl (RuntimeError ''Quit key pressed'')))
   \<and> (clicked \<noteq> [] \<and> quit_pending w \<longrightarrow>
      fst (correct_clicks clicked timestamp relative_to w) =
        Inl (RuntimeError ''Quit key pressed''))
   \<and> (fst (retrieve_mouse_events live_buttons w) \<noteq> [] \<and> quit_pending (dispatch_events w)
       \<and> \<not> (timestamp \<and> relative_to = None \<and> ms_listen_start w = None) \<longrightarrow>
      fst (get_clicks live_buttons timestamp relative_to w) =
        Inl (RuntimeError ''Quit key pressed''))
   \<and> (init_wait_click max_wait min_wait live_buttons timestamp relative_to w =
         Some (Inr (rel2, start_time), w1)
       \<and> (\<forall>i<n. in_time w1 start_time max_wait i \<and> clicks_seen live_buttons w1 (Suc i) = [])
       \<and> in_time w1 start_time max_wait n
       \<and> clicks_seen live_buttons w1 (Suc n) \<noteq> [] \<and> quit_pending (polled (Suc n) w1) \<longrightarrow>
      map_option fst (wait_one_click max_wait min_wait live_buttons timestamp relative_to w) =
        Some (Inl (RuntimeError ''Quit key pressed'')))
   \<and> (init_wait_click max_wait min_wait live_buttons timestamp relative_to w =
         Some (Inr (rel2, start_time), w1)
       \<and> (\<forall>i<n. in_time w1 start_time max_wait i) \<and> \<not> in_time w1 start_time max_wait n
       \<and> clicks_seen live_buttons w1 n \<noteq> [] \<and> quit_pending (timed_out n w1) \<longrightarrow>
      map_option fst (wait_for_clicks max_wait min_wait live_buttons timestamp relative_to w) =
        Some (Inl (RuntimeError ''Quit key pressed'')))"
  by (intro conjI impI; (elim conjE)?;
      (rule get_presses_quit correct_presses_quit keyboard_settle_quit mouse_settle_quit
         wait_one_press_quit wait_for_presses_quit correct_clicks_quit get_clicks_quit
         wait_one_click_quit wait_for_clicks_quit; assumption))

theorem force_quit_checked_when_retrieved_witness:
  "quit_pending settle_quit_world
   \<and> fst (get_presses None False None settle_quit_world) = Inl (RuntimeError ''Quit key pressed'')
   \<and> ''escape'' \<in> set (force_quit_keys settle_quit_world)
   \<and> fst (correct_presses [(''escape'', 1)] False None settle_quit_world) =
       Inl (RuntimeError ''Quit key pressed'')
   \<and> fl_le (Fin 1) (Fin 5)
   \<and> map_option fst (wait_one_press (Fin 5) (Fin 1) None False None settle_quit_world) =
       Some (Inl (RuntimeError ''Quit key pressed''))
   \<and> map_option fst (wait_for_presses (Fin 5) (Fin 1) None False None settle_quit_world) =
       Some (Inl (RuntimeError ''Quit key pressed''))
   \<and> map_option fst (wait_one_click (Fin 5) (Fin 1) None False None settle_quit_world) =
       Some (Inl (RuntimeError ''Quit key pressed''))
   \<and> map_option fst (wait_for_clicks (Fin 5) (Fin 1) None False None settle_quit_world) =
       Some (Inl (RuntimeError ''Quit key pressed''))
   \<and> fst (correct_clicks [(''left'', 1, 2, 3)] False None settle_quit_world) =
       Inl (RuntimeError ''Quit key pressed'')
   \<and> fst (retrieve_mouse_events None (busy_world\<lparr>keyboard_buffer := [(''escape'', 2)]\<rparr>)) =
       [(''left'', 10, 20, 3), (''right'', 5, 6, 5)]
   \<and> quit_pending (dispatch_events (busy_world\<lparr>keyboard_buffer := [(''escape'', 2)]\<rparr>))
   \<and> fst (get_clicks None False None (busy_world\<lparr>keyboard_buffer := [(''escape'', 2)]\<rparr>)) =
       Inl (RuntimeError ''Quit key pressed'')
   \<and> init_wait_press (Fin 3) (Fin 0) (Some [KStr ''a'']) False None click_quit_world =
       Some (Inr (None, 0), click_quit_keys_settled)
   \<and> in_time click_quit_keys_settled 0 (Fin 3) 0
   \<and> arrived click_quit_keys_settled (Suc 0) =
       [MousePress ''left'' 1 2 (5 / 4), KeyPress ''escape'' (3 / 2)]
   \<and> map_option fst
        (wait_one_press (Fin 3) (Fin 0) (Some [KStr ''a'']) False None click_quit_world) =
       Some (Inl (RuntimeError ''Quit key pressed''))
   \<and> in_time click_quit_keys_settled 0 (Fin 3) (Suc 0)
   \<and> \<not> in_time click_quit_keys_settled 0 (Fin 3) (Suc (Suc 0))
   \<and> map_option fst
        (wait_for_presses (Fin 3) (Fin 0) (Some [KStr ''a'']) False None click_quit_world) =
       Some (Inl (RuntimeError ''Quit key pressed''))
   \<and> init_wait_click (Fin 3) (Fin 0) None False None click_quit_world =
       Some (Inr (None, 0), click_quit_clicks_settled)
   \<and> clicks_seen None click_quit_clicks_settled (Suc 0) = [(''left'', 1, 2, 5 / 4)]
   \<and> quit_pending (polled (Suc 0) click_quit_clicks_settled)
   \<and> map_option fst (wait_one_click (Fin 3) (Fin 0) None False None click_quit_world) =
       Some (Inl (RuntimeError ''Quit key pressed''))
   \<and> quit_pending (timed_out (Suc (Suc 0)) click_quit_clicks_settled)
   \<and> map_option fst (wait_for_clicks (Fin 3) (Fin 0) None False None click_quit_world) =
       Some (Inl (RuntimeError ''Quit key pressed''))"
proof -
  let ?busy = "busy_world\<lparr>keyboard_buffer := [(''escape'', 2)]\<rparr>"
  note settle = force_quit_checked_when_retrieved [where w = settle_quit_world and timestamp = False and relative_to = None
      and live_keys = None and live_buttons = None and pressed = "[(''escape'', 1)]"
      and clicked = "[(''left'', 1, 2, 3)]" and max_wait = "Fin 5" and min_wait = "Fin 1"]
  note busy = force_quit_checked_when_retrieved [where w = ?busy and timestamp = False and relative_to = None
      and live_buttons = None]
  note first = force_quit_checked_when_retrieved [where w = click_quit_world and timestamp = False and relative_to = None
      and live_keys = "Some [KStr ''a'']" and live_buttons = None
      and max_wait = "Fin 3" and min_wait = "Fin 0" and ?start_time = 0 and n = 0
      and ?rel1.0 = None and ?w0.0 = click_quit_keys_settled
      and ?rel2.0 = None and ?w1.0 = click_quit_clicks_settled]
  note last = force_quit_checked_when_retrieved [where w = click_quit_world and timestamp = False and relative_to = None
      and live_keys = "Some [KStr ''a'']" and live_buttons = None
      and max_wait = "Fin 3" and min_wait = "Fin 0" and ?start_time = 0 and n = "Suc (Suc 0)"
      and ?rel1.0 = None and ?w0.0 = click_quit_keys_settled
      and ?rel2.0 = None and ?w1.0 = click_quit_clicks_settled]
  have key: "''escape'' \<in> set (force_quit_keys settle_quit_world)"
    by (simp add: settle_quit_world_def)
  have a: "fst (get_presses None False None settle_quit_world) =
      Inl (RuntimeError ''Quit key pressed'')"
    using settle [THEN conjunct1] settle_quit_pending by simp
  have b: "fst (correct_presses [(''escape'', 1)] False None settle_quit_world) =
      Inl (RuntimeError ''Quit key pressed'')"
    using settle [THEN conjunct2, THEN conjunct1] key by simp
  have c: "map_option fst (wait_one_press (Fin 5) (Fin 1) None False None settle_quit_world) =
      Some (Inl (RuntimeError ''Quit key pressed''))"
    "map_option fst (wait_for_presses (Fin 5) (Fin 1) None False None settle_quit_world) =
      Some (Inl (RuntimeError ''Quit key pressed''))"
    using settle [THEN conjunct2, THEN conjunct2, THEN conjunct1] settle_quit_pending
    by simp_all
  have d: "map_option fst (wait_one_click (Fin 5) (Fin 1) None False None settle_quit_world) =
      Some (Inl (RuntimeError ''Quit key pressed''))"
    "map_option fst (wait_for_clicks (Fin 5) (Fin 1) None False None settle_quit_world) =
      Some (Inl (RuntimeError ''Quit key pressed''))"
    using settle [THEN conjunct2, THEN conjunct2, THEN conjunct2, THEN conjunct1]
      settle_quit_pending
    by simp_all
  have e: "fst (correct_clicks [(''left'', 1, 2, 3)] False None settle_quit_world) =
      Inl (RuntimeError ''Quit key pressed'')"
    using settle [THEN conjunct2, THEN conjunct2, THEN conjunct2, THEN conjunct2, THEN conjunct2,
        THEN conjunct2, THEN conjunct1] settle_quit_pending
    by simp
  have got: "fst (retrieve_mouse_events None ?busy) = [(''left'', 10, 20, 3), (''right'', 5, 6, 5)]"
    by (simp add: retrieve_mouse_events_live button_live_def)
  have pending: "quit_pending (dispatch_events ?busy)"
    by (simp add: quit_pending_def)
  have f: "fst (get_clicks None False None ?busy) = Inl (RuntimeError ''Quit key pressed'')"
    using busy [THEN conjunct2, THEN conjunct2, THEN conjunct2, THEN conjunct2, THEN conjunct2,
        THEN conjunct2, THEN conjunct2, THEN conjunct1] got pending
    by simp
  have quit_arrives:
    "\<exists>e\<in>set (key_events (arrived click_quit_keys_settled (Suc 0))).
       fst e \<in> set (force_quit_keys click_quit_world)"
    "\<exists>e\<in>set (key_events (arrived click_quit_keys_settled (Suc (Suc 0)))).
       fst e \<in> set (force_quit_keys click_quit_world)"
    by (simp_all add: click_quit_arrived click_quit_keys)
  have keys0: "\<forall>i<0. in_time click_quit_keys_settled 0 (Fin 3) i
       \<and> keys_seen (Some [KStr ''a'']) click_quit_keys_settled (Suc i) = []"
    "in_time click_quit_keys_settled 0 (Fin 3) 0"
    and keys2: "\<forall>i<Suc (Suc 0). in_time click_quit_keys_settled 0 (Fin 3) i"
    "\<not> in_time click_quit_keys_settled 0 (Fin 3) (Suc (Suc 0))"
    and clicks0: "\<forall>i<0. in_time click_quit_clicks_settled 0 (Fin 3) i
       \<and> clicks_seen None click_quit_clicks_settled (Suc i) = []"
    "in_time click_quit_clicks_settled 0 (Fin 3) 0"
    and clicks2: "\<forall>i<Suc (Suc 0). in_time click_quit_clicks_settled 0 (Fin 3) i"
    "\<not> in_time click_quit_clicks_settled 0 (Fin 3) (Suc (Suc 0))"
    by (simp_all add: click_quit_in_time All_less_Suc)
  have seen: "clicks_seen None click_quit_clicks_settled (Suc 0) \<noteq> []"
    "clicks_seen None click_quit_clicks_settled (Suc (Suc 0)) \<noteq> []"
    by (simp_all add: click_quit_seen)
  have g: "map_option fst
      (wait_one_press (Fin 3) (Fin 0) (Some [KStr ''a'']) False None click_quit_world) =
      Some (Inl (RuntimeError ''Quit key pressed''))"
    by (rule first [THEN conjunct2, THEN conjunct2, THEN conjunct2, THEN conjunct2,
          THEN conjunct1, THEN mp,
          OF conjI [OF click_quit_init(1) conjI [OF keys0(1) conjI [OF keys0(2) quit_arrives(1)]]]])
  have h: "map_option fst
      (wait_for_presses (Fin 3) (Fin 0) (Some [KStr ''a'']) False None click_quit_world) =
      Some (Inl (RuntimeError ''Quit key pressed''))"
    by (rule last [THEN conjunct2, THEN conjunct2, THEN conjunct2, THEN conjunct2,
          THEN conjunct2, THEN conjunct1, THEN mp,
          OF conjI [OF click_quit_init(1) conjI [OF keys2(1) conjI [OF keys2(2) quit_arrives(2)]]]])
  have i: "map_option fst (wait_one_click (Fin 3) (Fin 0) None False None click_quit_world) =
      Some (Inl (RuntimeError ''Quit key pressed''))"
    by (rule first [THEN conjunct2, THEN conjunct2, THEN conjunct2, THEN conjunct2,
          THEN conjunct2, THEN conjunct2, THEN conjunct2, THEN conjunct2, THEN conjunct1, THEN mp,
          OF conjI [OF click_quit_init(2) conjI [OF clicks0(1) conjI [OF clicks0(2)
            conjI [OF seen(1) click_quit_pending(1)]]]]])
  have j: "map_option fst (wait_for_clicks (Fin 3) (Fin 0) None False None click_quit_world) =
      Some (Inl (RuntimeError ''Quit key pressed''))"
    by (rule last [THEN conjunct2, THEN conjunct2, THEN conjunct2, THEN conjunct2,
          THEN conjunct2, THEN conjunct2, THEN conjunct2, THEN conjunct2, THEN conjunct2, THEN mp,
          OF conjI [OF click_quit_init(2) conjI [OF clicks2(1) conjI [OF clicks2(2)
            conjI [OF seen(2) click_quit_pending(2)]]]]])
  show ?thesis
    by (intro conjI settle_quit_pending key a b c d e got pending f g h i j click_quit_init
          click_quit_arrived(1) click_quit_seen(1) click_quit_pending keys0(2) keys2(2))
       (simp_all add: click_quit_in_time)
qed

text \<open>
  Claim C3 as stated fails for the mouse: with a force-quit key in the keyboard buffer and
  no click, \<^verbatim>\<open>get_clicks\<close> returns the empty list; and when the key arrives at the first
  round of a mouse wait and no click comes, \<^verbatim>\<open>wait_for_clicks\<close> and \<^verbatim>\<open>wait_one_click\<close> run
  until the timeout and return the empty list and \<^verbatim>\<open>None\<close>, with the key pumped into the
  keyboard buffer.
\<close>

theorem pointer_retrieval_misses_force_quit:
  "''escape'' \<in> set (force_quit_keys (quiet_world\<lparr>keyboard_buffer := [(''escape'', 1)]\<rparr>))
   \<and> (''escape'', 1) \<in> set (keyboard_buffer (quiet_world\<lparr>keyboard_buffer := [(''escape'', 1)]\<rparr>))
   \<and> fst (get_clicks None False None (quiet_world\<lparr>keyboard_buffer := [(''escape'', 1)]\<rparr>)) = Inr []
   \<and> ''escape'' \<in> set (force_quit_keys late_quit_world)
   \<and> event_script late_quit_world 2 = [KeyPress ''escape'' (3 / 2)]
   \<and> wait_for_clicks (Fin 3) (Fin 0) None False None late_quit_world =
       Some (Inr [], timed_out (Suc (Suc 0)) late_clicks_settled)
   \<and> wait_one_click (Fin 3) (Fin 0) None False None late_quit_world =
       Some (Inr PyNone, timed_out (Suc (Suc 0)) late_clicks_settled)
   \<and> dispatch_calls (timed_out (Suc (Suc 0)) late_clicks_settled) = 4
   \<and> keyboard_buffer (timed_out (Suc (Suc 0)) late_clicks_settled) = [(''escape'', 3 / 2)]"
proof -
  have rounds: "\<forall>i<Suc (Suc 0). in_time late_clicks_settled 0 (Fin 3) i"
    "\<forall>i<Suc (Suc 0). in_time late_clicks_settled 0 (Fin 3) i
       \<and> clicks_seen None late_clicks_settled (Suc i) = []"
    "\<not> in_time late_clicks_settled 0 (Fin 3) (Suc (Suc 0))"
    by (simp_all add: late_settled_in_time late_settled_seen All_less_Suc)
  have many: "wait_for_clicks (Fin 3) (Fin 0) None False None late_quit_world =
      Some (Inr [], timed_out (Suc (Suc 0)) late_clicks_settled)"
    using wait_for_clicks_rounds [OF late_quit_init_click rounds(1) rounds(3)]
    by (simp add: late_settled_seen correct_clicks_eq)
  have one: "wait_one_click (Fin 3) (Fin 0) None False None late_quit_world =
      Some (Inr PyNone, timed_out (Suc (Suc 0)) late_clicks_settled)"
    using wait_one_click_timeout [OF late_quit_init_click rounds(2) rounds(3)]
    by simp
  show ?thesis
    by (intro conjI many one)
       (simp_all add: get_clicks_def retrieve_mouse_events_live correct_clicks_eq
          late_quit_world_def timed_out_def polled_fields late_settled_arrived,
        simp_all add: late_clicks_settled_def late_quit_world_def)
qed

end
